theory Spec2Isabelle
  imports Complex_Main "HOL-Library.Sublist"
begin

section \<open>The request handler of simple\_server.py\<close>

text \<open>
  The repository is one file, \<^verbatim>\<open>simple_server.py\<close>: a subclass \<^verbatim>\<open>SolanaHandler\<close> of
  \<^verbatim>\<open>http.server.SimpleHTTPRequestHandler\<close> with the two methods \<^verbatim>\<open>do_GET\<close> and
  \<^verbatim>\<open>handle_api\<close>. A request is handled by calling methods of the base class
  (\<^verbatim>\<open>send_response\<close>, \<^verbatim>\<open>send_header\<close>, \<^verbatim>\<open>end_headers\<close>, \<^verbatim>\<open>wfile.write\<close>), by
  \<^verbatim>\<open>print\<close> and by \<^verbatim>\<open>open\<close>. The embedding records these calls, in the order the handler
  makes them, as a list of events; an exception that leaves the handler is the second
  component of the outcome. What the base class makes of these calls, the bytes it
  writes to the client, is \<open>wire\<close> below: the lines are buffered in the order of the calls
  and written at \<^verbatim>\<open>end_headers\<close>.
\<close>

subsection \<open>Exceptions, events, the world a request runs in\<close>

datatype exn =
    ValueError
  | FileNotFoundError
  | PermissionError
  | IsADirectoryError
  | NotADirectoryError
  | OSError

type_synonym bytes = string

datatype event =
    Print string
  | Open string
  | SendResponse nat
  | SendHeader string string
  | EndHeaders
  | Write bytes

type_synonym outcome = "event list \<times> exn option"

text \<open>The result of \<^verbatim>\<open>time.gmtime()\<close>, as far as the format string reads it.\<close>

record struct_time =
  tm_year :: nat
  tm_mon :: nat
  tm_mday :: nat
  tm_hour :: nat
  tm_min :: nat
  tm_sec :: nat

text \<open>
  Everything a request reads from outside:
  \<^item> \<open>open_rb name\<close> is what \<^verbatim>\<open>open(name, 'rb')\<close> does, an exception or a file, and a file
    is what its \<^verbatim>\<open>read()\<close> does, an exception or the bytes (the files do not change while
    one request is handled);
  \<^item> \<open>environ\<close> is \<^verbatim>\<open>os.environ\<close>;
  \<^item> \<open>gmtime n\<close> is the value of the \<open>n\<close>-th call of \<^verbatim>\<open>time.gmtime()\<close> during the request
    (counted from 0);
  \<^item> \<open>bracketed_netloc_ok\<close> and \<open>nfkc_netloc_ok\<close> stand for two checks inside
    \<^verbatim>\<open>urllib.parse.urlsplit\<close> that raise \<^verbatim>\<open>ValueError\<close> (the parsing of a bracketed IP
    literal, and Unicode NFKC normalisation of the host); they are parameters here;
  \<^item> \<open>version_string\<close> is what the method \<^verbatim>\<open>version_string()\<close> of the base class returns (the
    server software and the Python version), and \<open>date_time_string n\<close> what the \<open>n\<close>-th call
    of its \<^verbatim>\<open>date_time_string()\<close> returns during the request: the time of the clock as an
    HTTP date.
\<close>

record world =
  open_rb :: "string \<Rightarrow> exn + (exn + bytes)"
  environ :: "string \<Rightarrow> string option"
  gmtime :: "nat \<Rightarrow> struct_time"
  bracketed_netloc_ok :: "string \<Rightarrow> bool"
  nfkc_netloc_ok :: "string \<Rightarrow> bool"
  version_string :: string
  date_time_string :: "nat \<Rightarrow> string"

subsection \<open>Decimal numerals\<close>

definition digit_char :: "nat \<Rightarrow> char" where
  "digit_char d = ''0123456789'' ! d"

fun dec :: "nat \<Rightarrow> string" where
  "dec n = (if n < 10 then [digit_char n] else dec (n div 10) @ [digit_char (n mod 10)])"

declare dec.simps [simp del]

definition zfill :: "nat \<Rightarrow> string \<Rightarrow> string" where
  "zfill k s = replicate (k - length s) (CHR ''0'') @ s"

subsection \<open>\<^verbatim>\<open>time.strftime\<close>\<close>

text \<open>
  The directives the source uses: \<^verbatim>\<open>%Y\<close> is the year as a decimal number (not padded, as
  in glibc), \<^verbatim>\<open>%m %d %H %M %S\<close> are two digits each. Every other character of the format is
  copied, and so is a \<^verbatim>\<open>%\<close> before any other letter.
\<close>

definition directive :: "char \<Rightarrow> struct_time \<Rightarrow> string" where
  "directive c t =
     (if c = CHR ''Y'' then dec (tm_year t)
      else if c = CHR ''m'' then zfill 2 (dec (tm_mon t))
      else if c = CHR ''d'' then zfill 2 (dec (tm_mday t))
      else if c = CHR ''H'' then zfill 2 (dec (tm_hour t))
      else if c = CHR ''M'' then zfill 2 (dec (tm_min t))
      else if c = CHR ''S'' then zfill 2 (dec (tm_sec t))
      else [CHR ''%'', c])"

fun strftime :: "string \<Rightarrow> struct_time \<Rightarrow> string" where
  "strftime [] t = []"
| "strftime [c] t = [c]"
| "strftime (c # d # fmt) t =
     (if c = CHR ''%'' then directive d t @ strftime fmt t else c # strftime (d # fmt) t)"

text \<open>The format string of lines 99, 124 and 143.\<close>

definition timestamp_format :: string where
  "timestamp_format = ''%Y-%m-%dT%H:%M:%S.000Z''"

subsection \<open>\<^verbatim>\<open>json.dumps\<close>\<close>

text \<open>
  The values the handler serialises. A Python \<^verbatim>\<open>float\<close> literal is kept as the decimal
  the source writes: \<open>JFloat m k\<close> is \<open>m / 10^k\<close> (\<^verbatim>\<open>0.92\<close> is \<open>JFloat 92 2\<close>). A \<^verbatim>\<open>dict\<close> keeps
  its insertion order, so it is an association list.
\<close>

datatype json =
    JBool bool
  | JInt int
  | JFloat int nat
  | JStr string
  | JList "json list"
  | JDict "(string \<times> json) list"

definition float_value :: "int \<Rightarrow> nat \<Rightarrow> real" where
  "float_value m k = real_of_int m / 10 ^ k"

fun join :: "string \<Rightarrow> string list \<Rightarrow> string" where
  "join sep [] = []"
| "join sep [x] = x"
| "join sep (x # y # ys) = x @ sep @ join sep (y # ys)"

definition hex_char :: "nat \<Rightarrow> char" where
  "hex_char d = ''0123456789abcdef'' ! d"

text \<open>
  \<^verbatim>\<open>json.encoder.py_encode_basestring_ascii\<close> (\<^verbatim>\<open>ensure_ascii\<close> is on by default): the
  backslash, the double quote and the control characters are escaped, a character outside
  \<^verbatim>\<open>' '..'~'\<close> becomes \<^verbatim>\<open>\u00XX\<close>. The double quote is \<open>CHR 0x22\<close>, the backslash \<open>CHR 0x5C\<close>.
\<close>

definition escape_char :: "char \<Rightarrow> string" where
  "escape_char c =
     (if c = CHR 0x5C then [CHR 0x5C, CHR 0x5C]
      else if c = CHR 0x22 then [CHR 0x5C, CHR 0x22]
      else if c = CHR 0x08 then [CHR 0x5C, CHR ''b'']
      else if c = CHR 0x0C then [CHR 0x5C, CHR ''f'']
      else if c = CHR 0x0A then [CHR 0x5C, CHR ''n'']
      else if c = CHR 0x0D then [CHR 0x5C, CHR ''r'']
      else if c = CHR 0x09 then [CHR 0x5C, CHR ''t'']
      else if 32 \<le> (of_char c :: nat) \<and> (of_char c :: nat) \<le> 126 then [c]
      else [CHR 0x5C] @ ''u00'' @ [hex_char (of_char c div 16), hex_char (of_char c mod 16)])"

definition encode_basestring_ascii :: "string \<Rightarrow> string" where
  "encode_basestring_ascii s = [CHR 0x22] @ concat (map escape_char s) @ [CHR 0x22]"

text \<open>
  \<^verbatim>\<open>float.__repr__\<close> on the literals of the source prints the literal: the integer part, a
  point, and the \<open>k\<close> fractional digits.
\<close>

definition float_repr :: "int \<Rightarrow> nat \<Rightarrow> string" where
  "float_repr m k =
     (if m < 0 then ''-'' else []) @ dec (nat \<bar>m\<bar> div 10 ^ k) @ ''.''
       @ zfill k (dec (nat \<bar>m\<bar> mod 10 ^ k))"

text \<open>\<^verbatim>\<open>json.dumps\<close> with its default separators \<^verbatim>\<open>', '\<close> and \<^verbatim>\<open>': '\<close>.\<close>

fun dumps :: "json \<Rightarrow> string" where
  "dumps (JBool b) = (if b then ''true'' else ''false'')"
| "dumps (JInt i) = (if i < 0 then ''-'' @ dec (nat (- i)) else dec (nat i))"
| "dumps (JFloat m k) = float_repr m k"
| "dumps (JStr s) = encode_basestring_ascii s"
| "dumps (JList xs) = ''['' @ join '', '' (map dumps xs) @ '']''"
| "dumps (JDict kvs) =
     ''{'' @ join '', '' (map (\<lambda>(k, v). encode_basestring_ascii k @ '': '' @ dumps v) kvs) @ ''}''"

text \<open>
  \<^verbatim>\<open>str.encode()\<close> is UTF-8: a character below 128 is one byte, itself; the others, up
  to 255 in this model, are two bytes.
\<close>

definition utf8_char :: "char \<Rightarrow> bytes" where
  "utf8_char c =
     (if (of_char c :: nat) < 128 then [c]
      else [char_of (192 + of_char c div 64 :: nat), char_of (128 + of_char c mod 64 :: nat)])"

definition encode :: "string \<Rightarrow> bytes" where
  "encode s = concat (map utf8_char s)"

definition isascii :: "string \<Rightarrow> bool" where
  "isascii s = list_all (\<lambda>c. (of_char c :: nat) < 128) s"

text \<open>Reading a serialised value back: the keys of an object and the value under a key.\<close>

fun keys :: "json \<Rightarrow> string list" where
  "keys (JDict kvs) = map fst kvs"
| "keys _ = []"

fun field :: "string \<Rightarrow> json \<Rightarrow> json option" where
  "field k (JDict kvs) = map_of kvs k"
| "field k _ = None"

subsection \<open>\<^verbatim>\<open>urllib.parse.urlparse(url).path\<close>\<close>

text \<open>
  The path component as CPython 3.12's \<^verbatim>\<open>urlsplit\<close> and \<^verbatim>\<open>urlparse\<close> compute it, step by
  step: leading C0 control characters and spaces are stripped; tab, CR and LF are removed;
  a scheme (\<^verbatim>\<open>letter scheme_chars* ':'\<close>) is split off; after \<^verbatim>\<open>//\<close> a network location
  runs to the first of \<^verbatim>\<open>/ ? #\<close>; the fragment (from the first \<^verbatim>\<open>#\<close>) and then the query (from
  the first \<^verbatim>\<open>?\<close>) are cut; last, for a scheme in \<^verbatim>\<open>uses_params\<close>, the parameters (from the
  first \<^verbatim>\<open>;\<close> of the last segment) are cut.
\<close>

definition lstrip_c0 :: "string \<Rightarrow> string" where
  "lstrip_c0 url = dropWhile (\<lambda>c. (of_char c :: nat) \<le> 32) url"

definition remove_unsafe :: "string \<Rightarrow> string" where
  "remove_unsafe url = filter (\<lambda>c. c \<noteq> CHR 0x09 \<and> c \<noteq> CHR 0x0D \<and> c \<noteq> CHR 0x0A) url"

definition ascii_letters :: string where
  "ascii_letters = ''abcdefghijklmnopqrstuvwxyzABCDEFGHIJKLMNOPQRSTUVWXYZ''"

definition scheme_chars :: string where
  "scheme_chars = ascii_letters @ ''0123456789'' @ ''+-.''"

definition uses_params :: "string list" where
  "uses_params = ['''', ''ftp'', ''hdl'', ''prospero'', ''http'', ''imap'',
     ''https'', ''shttp'', ''rtsp'', ''rtsps'', ''rtspu'', ''sip'',
     ''sips'', ''mms'', ''sftp'', ''tel'']"

definition lower_char :: "char \<Rightarrow> char" where
  "lower_char c =
     (if 65 \<le> (of_char c :: nat) \<and> (of_char c :: nat) \<le> 90 then char_of (of_char c + 32 :: nat)
      else c)"

text \<open>
  \<^verbatim>\<open>i = url.find(':')\<close>; with \<^verbatim>\<open>i > 0\<close>, an ASCII letter first and only scheme characters
  before the colon, the scheme is \<^verbatim>\<open>url[:i].lower()\<close> and the rest \<^verbatim>\<open>url[i+1:]\<close>.
\<close>

definition split_scheme :: "string \<Rightarrow> string \<times> string" where
  "split_scheme url =
     (let pre = takeWhile (\<lambda>c. c \<noteq> CHR '':'') url in
      if CHR '':'' \<in> set url \<and> pre \<noteq> [] \<and> hd url \<in> set ascii_letters
           \<and> list_all (\<lambda>c. c \<in> set scheme_chars) pre
      then (map lower_char pre, drop (length pre + 1) url)
      else ([], url))"

definition is_delim :: "char \<Rightarrow> bool" where
  "is_delim c = (c = CHR ''/'' \<or> c = CHR ''?'' \<or> c = CHR ''#'')"

text \<open>\<^verbatim>\<open>_splitnetloc(url, 2)\<close>: the network location ends at the earliest delimiter.\<close>

definition splitnetloc :: "string \<Rightarrow> string \<times> string" where
  "splitnetloc url =
     (takeWhile (\<lambda>c. \<not> is_delim c) (drop 2 url), dropWhile (\<lambda>c. \<not> is_delim c) (drop 2 url))"

text \<open>
  \<^verbatim>\<open>_splitparams\<close>: with a slash in the path the parameters start at the first \<^verbatim>\<open>;\<close> at or
  after the last slash (none there: the path is whole), without a slash at the first \<^verbatim>\<open>;\<close>.
\<close>

definition splitparams :: "string \<Rightarrow> string" where
  "splitparams url =
     (if CHR ''/'' \<in> set url then
        (let last_seg = takeWhile (\<lambda>c. c \<noteq> CHR ''/'') (rev url);
             i = length url - length last_seg - 1
         in if CHR '';'' \<in> set (drop i url)
            then take i url @ takeWhile (\<lambda>c. c \<noteq> CHR '';'') (drop i url)
            else url)
      else takeWhile (\<lambda>c. c \<noteq> CHR '';'') url)"

definition urlparse_path :: "world \<Rightarrow> string \<Rightarrow> exn + string" where
  "urlparse_path w url0 =
     (let url1 = remove_unsafe (lstrip_c0 url0);
          (scheme, url2) = split_scheme url1;
          has_netloc = (take 2 url2 = ''//'');
          (netloc, url3) = (if has_netloc then splitnetloc url2 else ([], url2));
          lb = (CHR ''['' \<in> set netloc);
          rb = (CHR '']'' \<in> set netloc)
      in if has_netloc \<and> ((lb \<and> \<not> rb) \<or> (rb \<and> \<not> lb)) then Inl ValueError
         else if has_netloc \<and> lb \<and> rb \<and> \<not> bracketed_netloc_ok w netloc then Inl ValueError
         else
           (let url4 = takeWhile (\<lambda>c. c \<noteq> CHR ''#'') url3;
                url5 = takeWhile (\<lambda>c. c \<noteq> CHR ''?'') url4
            in if \<not> (netloc = [] \<or> isascii netloc \<or> nfkc_netloc_ok w netloc) then Inl ValueError
               else if scheme \<in> set uses_params \<and> CHR '';'' \<in> set url5
                 then Inr (splitparams url5)
                 else Inr url5))"

subsection \<open>The handler\<close>

text \<open>Lines 42 to 55: the content type by the suffix of the path, first match first.\<close>

definition content_type :: "string \<Rightarrow> string" where
  "content_type path =
     (if suffix ''.html'' path then ''text/html''
      else if suffix ''.css'' path then ''text/css''
      else if suffix ''.js'' path then ''text/javascript''
      else if suffix ''.json'' path then ''application/json''
      else if suffix ''.jpg'' path \<or> suffix ''.jpeg'' path then ''image/jpeg''
      else if suffix ''.png'' path then ''image/png''
      else ''application/octet-stream'')"

text \<open>
  Lines 38 to 58, the body of the outer \<^verbatim>\<open>try\<close>: \<^verbatim>\<open>open\<close>, the status, the header,
  \<^verbatim>\<open>end_headers\<close>, then \<^verbatim>\<open>file.read()\<close> and the write. An exception ends it where it is
  raised, with the events made so far.
\<close>

definition try_file :: "world \<Rightarrow> string \<Rightarrow> outcome" where
  "try_file w path =
     (case open_rb w (''.'' @ path) of
        Inl e \<Rightarrow> ([Open (''.'' @ path)], Some e)
      | Inr file \<Rightarrow>
          (let head = [Open (''.'' @ path), SendResponse 200,
                       SendHeader ''Content-type'' (content_type path), EndHeaders]
           in case file of
                Inl e \<Rightarrow> (head, Some e)
              | Inr data \<Rightarrow> (head @ [Write data], None)))"

text \<open>Lines 62 to 66, the body of the inner \<^verbatim>\<open>try\<close>.\<close>

definition try_index :: "world \<Rightarrow> outcome" where
  "try_index w =
     (case open_rb w ''./index.html'' of
        Inl e \<Rightarrow> ([Open ''./index.html''], Some e)
      | Inr file \<Rightarrow>
          (let head = [Open ''./index.html'', SendResponse 200,
                       SendHeader ''Content-type'' ''text/html'', EndHeaders]
           in case file of
                Inl e \<Rightarrow> (head, Some e)
              | Inr data \<Rightarrow> (head @ [Write data], None)))"

text \<open>Lines 69 to 72.\<close>

definition not_found :: "event list" where
  "not_found = [SendResponse 404, SendHeader ''Content-type'' ''text/html'', EndHeaders,
     Write ''404 Not Found'']"

text \<open>Lines 81 to 84, 94 to 100, 107 to 146 and 152: the documents of the API.\<close>

definition health_response :: json where
  "health_response = JDict [
     (''status'', JStr ''ok''),
     (''message'', JStr ''Solana Trading Platform server is running'')]"

definition status_response :: "world \<Rightarrow> json" where
  "status_response w =
     (let has_api_key = (environ w ''SOLANA_RPC_API_KEY'' \<noteq> None);
          has_instant_nodes = (environ w ''INSTANT_NODES_RPC_URL'' \<noteq> None)
      in JDict [
        (''status'', JStr ''operational''),
        (''customRpc'', JBool has_instant_nodes),
        (''apiKey'', JBool (has_api_key \<or> True)),
        (''network'', JStr ''mainnet-beta''),
        (''timestamp'', JStr (strftime timestamp_format (gmtime w 0)))])"

definition agents :: "world \<Rightarrow> json" where
  "agents w = JList [
     JDict [
       (''id'', JStr ''hyperion-1''),
       (''name'', JStr ''Hyperion Flash Arbitrage''),
       (''type'', JStr ''hyperion''),
       (''status'', JStr ''idle''),
       (''active'', JBool True),
       (''wallets'', JDict [
          (''trading'', JStr ''HN7cABqLq46Es1jh92dQQisAq662SmxELLLsHHe5tHE2''),
          (''profit'', JStr ''2xNwwA8DmH5AsLhBjevvkPzTnpvH6Zz4pQ7bvQD9rtkf''),
          (''fee'', JStr ''4z1PvJnKZcnLSJYGRNdZn7eYAUkKRiUJJW6Kcmt2hiEX''),
          (''stealth'', JList [JStr ''3Y7T8oBSHUb81uetPjjzSBdGe6RN2rTZ3NEN1xQ6mVi4''])]),
       (''metrics'', JDict [
          (''totalExecutions'', JInt 157),
          (''successRate'', JFloat 92 2),
          (''totalProfit'', JFloat 2345 2),
          (''lastExecution'', JStr (strftime timestamp_format (gmtime w 0)))])],
     JDict [
       (''id'', JStr ''quantum-omega-1''),
       (''name'', JStr ''Quantum Omega Sniper''),
       (''type'', JStr ''quantum_omega''),
       (''status'', JStr ''idle''),
       (''active'', JBool True),
       (''wallets'', JDict [
          (''trading'', JStr ''5FHwkrdxD5oNU3DwPWbxLQkd5Za4rQXQDkxMZvHzLkSr''),
          (''profit'', JStr ''7XvgVxyh5cQeb9PdiUJZBbyYAqNz8JfwbFGPn6HvhNxW''),
          (''fee'', JStr ''3WPBgP3Mcv2XTf6Sq8QNLegzVMhGp4w1mYhRK5o3bzJ7''),
          (''stealth'', JList [JStr ''3Y7T8oBSHUb81uetPjjzSBdGe6RN2rTZ3NEN1xQ6mVi4'',
                               JStr ''9Y7T8oBSHUb81uetPjjzSBdGe6RN2rTZ3NEN1xQ6mVqW''])]),
       (''metrics'', JDict [
          (''totalExecutions'', JInt 82),
          (''successRate'', JFloat 88 2),
          (''totalProfit'', JFloat 1476 2),
          (''lastExecution'', JStr (strftime timestamp_format (gmtime w 1)))])]]"

definition error_response :: json where
  "error_response = JDict [(''error'', JStr ''API endpoint not found'')]"

text \<open>
  Lines 74 to 153. The header is sent first (line 76), before the branch that sends the
  status.
\<close>

definition handle_api :: "world \<Rightarrow> string \<Rightarrow> event list" where
  "handle_api w path =
     SendHeader ''Content-type'' ''application/json'' #
     (if path = ''/api/health'' then
        [SendResponse 200, EndHeaders, Write (encode (dumps health_response))]
      else if path = ''/api/solana/status'' then
        [SendResponse 200, EndHeaders, Write (encode (dumps (status_response w)))]
      else if path = ''/api/agents'' then
        [SendResponse 200, EndHeaders, Write (encode (dumps (agents w)))]
      else
        [SendResponse 404, EndHeaders, Write (encode (dumps error_response))])"

text \<open>
  Lines 20 to 72. \<^verbatim>\<open>except FileNotFoundError\<close> catches that exception and no other; an
  exception of \<^verbatim>\<open>urlparse\<close> leaves the handler before anything is printed.
\<close>

definition do_GET :: "world \<Rightarrow> string \<Rightarrow> outcome" where
  "do_GET w request_path =
     (case urlparse_path w request_path of
        Inl e \<Rightarrow> ([], Some e)
      | Inr path \<Rightarrow>
          (let logged = Print (''Request received: '' @ path) in
           if prefix ''/api/'' path then (logged # handle_api w path, None)
           else
             (let path' = (if path = ''/'' then ''/index.html'' else path);
                  (events1, raised1) = try_file w path'
              in if raised1 = Some FileNotFoundError then
                   (let (events2, raised2) = try_index w
                    in if raised2 = Some FileNotFoundError
                       then (logged # events1 @ events2 @ not_found, None)
                       else (logged # events1 @ events2, raised2))
                 else (logged # events1, raised1))))"

text \<open>What the client is sent, and which files the handler tried to open.\<close>

fun to_client :: "event \<Rightarrow> bool" where
  "to_client (Print s) = False"
| "to_client (Open n) = False"
| "to_client _ = True"

definition sent :: "outcome \<Rightarrow> event list" where
  "sent r = filter to_client (fst r)"

fun opened :: "event list \<Rightarrow> string list" where
  "opened [] = []"
| "opened (Open n # es) = n # opened es"
| "opened (e # es) = opened es"

subsection \<open>What \<^verbatim>\<open>http.server\<close> writes to the client\<close>

text \<open>
  \<^verbatim>\<open>BaseHTTPRequestHandler\<close> (CPython 3.12, \<^verbatim>\<open>http/server.py\<close>), for a request of HTTP/1.0 or
  later. \<^verbatim>\<open>send_response_only\<close> appends the status line
  \<^verbatim>\<open>"%s %d %s\r\n" % (protocol_version, code, message)\<close> to the headers buffer, with the
  protocol version \<^verbatim>\<open>HTTP/1.0\<close> that the source leaves as it is and the message of the code
  (given here for the two codes of the source). \<^verbatim>\<open>send_response\<close> is \<^verbatim>\<open>send_response_only\<close>
  followed by the headers \<^verbatim>\<open>Server\<close> and \<^verbatim>\<open>Date\<close>; \<^verbatim>\<open>send_header\<close> appends
  \<^verbatim>\<open>"%s: %s\r\n"\<close> to the same buffer; \<^verbatim>\<open>end_headers\<close> appends the empty line and writes the
  buffer; \<^verbatim>\<open>wfile.write\<close> writes at once. Lines still in the buffer when the handler ends
  are not written. Nothing of \<^verbatim>\<open>print\<close> and \<^verbatim>\<open>open\<close> reaches the client.
\<close>

definition crlf :: bytes where
  "crlf = [CHR 0x0D, CHR 0x0A]"

definition reason_phrase :: "nat \<Rightarrow> string" where
  "reason_phrase code = (if code = 200 then ''OK'' else if code = 404 then ''Not Found'' else [])"

definition status_line :: "nat \<Rightarrow> bytes" where
  "status_line code = ''HTTP/1.0'' @ '' '' @ dec code @ '' '' @ reason_phrase code @ crlf"

definition header_line :: "string \<Rightarrow> string \<Rightarrow> bytes" where
  "header_line keyword v = keyword @ '': '' @ v @ crlf"

text \<open>
  \<open>wire_from w buffer n events\<close>: the bytes written from here on, with the headers buffer
  as it stands and \<open>n\<close> calls of \<^verbatim>\<open>date_time_string()\<close> made so far.
\<close>

fun wire_from :: "world \<Rightarrow> bytes \<Rightarrow> nat \<Rightarrow> event list \<Rightarrow> bytes" where
  "wire_from w buffer n [] = []"
| "wire_from w buffer n (Print s # events) = wire_from w buffer n events"
| "wire_from w buffer n (Open name # events) = wire_from w buffer n events"
| "wire_from w buffer n (SendResponse code # events) =
     wire_from w
       (buffer @ status_line code @ header_line ''Server'' (version_string w)
          @ header_line ''Date'' (date_time_string w n))
       (Suc n) events"
| "wire_from w buffer n (SendHeader keyword v # events) =
     wire_from w (buffer @ header_line keyword v) n events"
| "wire_from w buffer n (EndHeaders # events) = buffer @ crlf @ wire_from w [] n events"
| "wire_from w buffer n (Write data # events) = data @ wire_from w buffer n events"

definition wire :: "world \<Rightarrow> event list \<Rightarrow> bytes" where
  "wire w events = wire_from w [] 0 events"

section \<open>Notions of the specification\<close>

text \<open>A string between double quotes, to write the text of a JSON document.\<close>

definition quoted :: "string \<Rightarrow> string" where
  "quoted s = [CHR 0x22] @ s @ [CHR 0x22]"

text \<open>The extension table of section 4.1.1.\<close>

definition content_type_table :: "(string \<times> string) list" where
  "content_type_table = [
     (''.html'', ''text/html''),
     (''.css'', ''text/css''),
     (''.js'', ''text/javascript''),
     (''.json'', ''application/json''),
     (''.jpg'', ''image/jpeg''),
     (''.jpeg'', ''image/jpeg''),
     (''.png'', ''image/png'')]"

text \<open>
  The form \<^verbatim>\<open>YYYY-MM-DDTHH:MM:SS.000Z\<close>: four digits, then two digits five times, then
  the literal end. The ranges are those of a \<^verbatim>\<open>struct_time\<close> in the years of four digits.
\<close>

definition digits2 :: "nat \<Rightarrow> string" where
  "digits2 n = [digit_char (n div 10), digit_char (n mod 10)]"

definition digits4 :: "nat \<Rightarrow> string" where
  "digits4 n = [digit_char (n div 1000), digit_char (n div 100 mod 10),
     digit_char (n div 10 mod 10), digit_char (n mod 10)]"

definition iso_timestamp :: "struct_time \<Rightarrow> string" where
  "iso_timestamp t =
     digits4 (tm_year t) @ ''-'' @ digits2 (tm_mon t) @ ''-'' @ digits2 (tm_mday t) @ ''T''
       @ digits2 (tm_hour t) @ '':'' @ digits2 (tm_min t) @ '':'' @ digits2 (tm_sec t)
       @ ''.000Z''"

definition valid_tm :: "struct_time \<Rightarrow> bool" where
  "valid_tm t =
     (1000 \<le> tm_year t \<and> tm_year t \<le> 9999 \<and> 1 \<le> tm_mon t \<and> tm_mon t \<le> 12
      \<and> 1 \<le> tm_mday t \<and> tm_mday t \<le> 31 \<and> tm_hour t \<le> 23 \<and> tm_min t \<le> 59
      \<and> tm_sec t \<le> 61)"

text \<open>A document with its timestamp fields blanked, to compare two runs.\<close>

fun redact :: "json \<Rightarrow> json" where
  "redact (JDict kvs) =
     JDict (map (\<lambda>(k, v). (k, if k = ''timestamp'' \<or> k = ''lastExecution'' then JStr [] else redact v)) kvs)"
| "redact (JList xs) = JList (map redact xs)"
| "redact j = j"

text \<open>
  Whether a file name, read from the served root, leaves it: the depth below the root
  goes up with a name, down with \<^verbatim>\<open>..\<close>, and is negative at some point.
\<close>

fun split_slash :: "string \<Rightarrow> string list" where
  "split_slash [] = [[]]"
| "split_slash (c # cs) =
     (if c = CHR ''/'' then [] # split_slash cs
      else (case split_slash cs of [] \<Rightarrow> [[c]] | s # ss \<Rightarrow> (c # s) # ss))"

fun climbs_out :: "int \<Rightarrow> string list \<Rightarrow> bool" where
  "climbs_out depth [] = False"
| "climbs_out depth (s # ss) =
     (if s = ''..'' then depth - 1 < 0 \<or> climbs_out (depth - 1) ss
      else if s = ''.'' \<or> s = [] then climbs_out depth ss
      else climbs_out (depth + 1) ss)"

definition escapes_root :: "string \<Rightarrow> bool" where
  "escapes_root name = climbs_out 0 (split_slash name)"

text \<open>
  Three worlds to evaluate the handler in. The first has two files, one that may not be
  opened and one that cannot be read; \<^verbatim>\<open>app.js\<close> being a file and no directory, nothing is
  named \<^verbatim>\<open>./app.js/x\<close>, and opening that name raises \<^verbatim>\<open>NotADirectoryError\<close>. The second
  world has no file at all and an empty environment; the third is the first at a later
  time.
\<close>

definition demo_world :: world where
  "demo_world = \<lparr>
     open_rb = (\<lambda>name.
       if name = ''./index.html'' then Inr (Inr ''<html>hi</html>'')
       else if name = ''./app.js'' then Inr (Inr ''let x;'')
       else if name = ''./secret.txt'' then Inl PermissionError
       else if name = ''./broken.css'' then Inr (Inl OSError)
       else if name = ''./app.js/x'' then Inl NotADirectoryError
       else Inl FileNotFoundError),
     environ = [''INSTANT_NODES_RPC_URL'' \<mapsto> ''https://rpc.example''],
     gmtime = (\<lambda>n. \<lparr>tm_year = 2024, tm_mon = 3, tm_mday = 9, tm_hour = 7, tm_min = 5,
                        tm_sec = 58 + n\<rparr>),
     bracketed_netloc_ok = (\<lambda>netloc. True),
     nfkc_netloc_ok = (\<lambda>netloc. True),
     version_string = ''SimpleHTTP/0.6 Python/3.12.3'',
     date_time_string = (\<lambda>n. ''Sat, 09 Mar 2024 07:05:58 GMT'')\<rparr>"

definition empty_world :: world where
  "empty_world = demo_world\<lparr>open_rb := (\<lambda>name. Inl FileNotFoundError), environ := Map.empty\<rparr>"

definition later_world :: world where
  "later_world = demo_world\<lparr>
     gmtime := (\<lambda>n. \<lparr>tm_year = 2025, tm_mon = 12, tm_mday = 31, tm_hour = 23, tm_min = 59,
                        tm_sec = n\<rparr>),
     date_time_string := (\<lambda>n. ''Wed, 31 Dec 2025 23:59:00 GMT'')\<rparr>"

section \<open>What \<open>dumps\<close> writes\<close>

text \<open>
  \<open>dumps\<close> writes ASCII characters only (\<^verbatim>\<open>ensure_ascii\<close>), so the bytes of a body are the
  characters of the document.
\<close>

lemma encode_ascii: "isascii s \<Longrightarrow> encode s = s"
  by (induction s) (simp_all add: encode_def isascii_def utf8_char_def)

lemma isascii_append [simp]: "isascii (xs @ ys) = (isascii xs \<and> isascii ys)"
  by (simp add: isascii_def)

lemma isascii_Nil [simp]: "isascii []"
  by (simp add: isascii_def)

lemma isascii_Cons: "isascii (c # cs) = ((of_char c :: nat) < 128 \<and> isascii cs)"
  by (simp add: isascii_def)

lemma digit_char_ascii: "d < 10 \<Longrightarrow> (of_char (digit_char d) :: nat) < 128"
proof -
  assume "d < 10"
  then have "d = 0 \<or> d = 1 \<or> d = 2 \<or> d = 3 \<or> d = 4 \<or> d = 5 \<or> d = 6 \<or> d = 7 \<or> d = 8
      \<or> d = 9"
    by arith
  then show ?thesis by (elim disjE) (simp_all add: digit_char_def)
qed

lemma hex_char_ascii: "d < 16 \<Longrightarrow> (of_char (hex_char d) :: nat) < 128"
proof -
  assume "d < 16"
  then have "d = 0 \<or> d = 1 \<or> d = 2 \<or> d = 3 \<or> d = 4 \<or> d = 5 \<or> d = 6 \<or> d = 7 \<or> d = 8
      \<or> d = 9 \<or> d = 10 \<or> d = 11 \<or> d = 12 \<or> d = 13 \<or> d = 14 \<or> d = 15"
    by arith
  then show ?thesis by (elim disjE) (simp_all add: hex_char_def)
qed

lemma dec_ascii: "isascii (dec n)"
proof (induction n rule: dec.induct)
  case (1 n)
  show ?case
  proof (cases "n < 10")
    case True
    then show ?thesis by (subst dec.simps) (simp add: isascii_Cons digit_char_ascii)
  next
    case False
    with 1 show ?thesis by (subst dec.simps) (simp add: isascii_Cons digit_char_ascii)
  qed
qed

lemma zfill_ascii: "isascii s \<Longrightarrow> isascii (zfill k s)"
  by (simp add: zfill_def) (simp add: isascii_def list_all_iff)

lemma float_repr_ascii: "isascii (float_repr m k)"
  by (simp add: float_repr_def dec_ascii zfill_ascii isascii_Cons)

lemma of_char_lt_256: "(of_char c :: nat) < 256"
  by (cases c) simp

lemma escape_char_ascii: "isascii (escape_char c)"
proof -
  have "(of_char c :: nat) div 16 < 16" using of_char_lt_256 [of c] by arith
  then show ?thesis
    by (simp add: escape_char_def isascii_Cons hex_char_ascii)
qed

lemma concat_ascii: "(\<And>x. x \<in> set xs \<Longrightarrow> isascii x) \<Longrightarrow> isascii (concat xs)"
  by (induction xs) simp_all

lemma encode_basestring_ascii_ascii: "isascii (encode_basestring_ascii s)"
  by (auto simp: encode_basestring_ascii_def isascii_Cons escape_char_ascii intro!: concat_ascii)

lemma join_ascii:
  "isascii sep \<Longrightarrow> (\<And>x. x \<in> set xs \<Longrightarrow> isascii x) \<Longrightarrow> isascii (join sep xs)"
  by (induction sep xs rule: join.induct) simp_all

lemma dumps_ascii: "isascii (dumps j)"
proof (induction j rule: dumps.induct)
  case (1 b)
  then show ?case by (simp add: isascii_Cons)
next
  case (2 i)
  then show ?case by (simp add: isascii_Cons dec_ascii)
next
  case (3 m k)
  then show ?case by (simp add: float_repr_ascii)
next
  case (4 s)
  then show ?case by (simp add: encode_basestring_ascii_ascii)
next
  case (5 xs)
  then show ?case by (auto simp: isascii_Cons intro!: join_ascii)
next
  case (6 kvs)
  have "isascii (join '', '' (map (\<lambda>(k, v). encode_basestring_ascii k @ '': '' @ dumps v) kvs))"
  proof (rule join_ascii)
    show "isascii '', ''" by (simp add: isascii_Cons)
  next
    fix x assume "x \<in> set (map (\<lambda>(k, v). encode_basestring_ascii k @ '': '' @ dumps v) kvs)"
    then obtain k v where kv: "(k, v) \<in> set kvs"
      and x: "x = encode_basestring_ascii k @ '': '' @ dumps v" by auto
    from 6 [OF kv] have "isascii (dumps v)" by simp
    with x show "isascii x" by (simp add: encode_basestring_ascii_ascii isascii_Cons)
  qed
  then show ?case by (simp add: isascii_Cons)
qed

lemma encode_dumps: "encode (dumps j) = dumps j"
  by (rule encode_ascii) (rule dumps_ascii)

section \<open>The path of a request\<close>

lemmas urlparse_defs = urlparse_path_def lstrip_c0_def remove_unsafe_def split_scheme_def
  splitnetloc_def splitparams_def isascii_def uses_params_def

lemma urlparse_root: "urlparse_path w ''/'' = Inr ''/''"
  by (simp add: urlparse_defs)

lemma urlparse_index: "urlparse_path w ''/index.html'' = Inr ''/index.html''"
  by (simp add: urlparse_defs)

lemma urlparse_api_health: "urlparse_path w ''/api/health'' = Inr ''/api/health''"
  by (simp add: urlparse_defs)

lemma urlparse_api_health_slash: "urlparse_path w ''/api/health/'' = Inr ''/api/health/''"
  by (simp add: urlparse_defs)

lemma urlparse_api_status: "urlparse_path w ''/api/solana/status'' = Inr ''/api/solana/status''"
  by (simp add: urlparse_defs)

lemma urlparse_api_agents: "urlparse_path w ''/api/agents'' = Inr ''/api/agents''"
  by (simp add: urlparse_defs)

lemma urlparse_app_js: "urlparse_path w ''/app.js?v=1'' = Inr ''/app.js''"
  by (simp add: urlparse_defs)

lemma urlparse_nothing: "urlparse_path w ''/nothing/here'' = Inr ''/nothing/here''"
  by (simp add: urlparse_defs)

lemma urlparse_secret: "urlparse_path w ''/secret.txt'' = Inr ''/secret.txt''"
  by (simp add: urlparse_defs)

lemma urlparse_broken: "urlparse_path w ''/broken.css'' = Inr ''/broken.css''"
  by (simp add: urlparse_defs)

lemma urlparse_traversal: "urlparse_path w ''/../etc/passwd'' = Inr ''/../etc/passwd''"
  by (simp add: urlparse_defs)

lemma urlparse_nested: "urlparse_path w ''/app.js/x'' = Inr ''/app.js/x''"
  by (simp add: urlparse_defs)

text \<open>
  A query string changes nothing in the path. Each step of \<open>urlparse_path\<close> keeps the
  text from the first added \<^verbatim>\<open>?\<close> on at the end of what it returns, until the cut at the
  first \<^verbatim>\<open>?\<close> removes it.
\<close>

lemma lstrip_c0_query: "lstrip_c0 (p @ CHR ''?'' # q) = lstrip_c0 p @ CHR ''?'' # q"
  by (induction p) (simp_all add: lstrip_c0_def)

lemma remove_unsafe_query:
  "remove_unsafe (u @ CHR ''?'' # q) = remove_unsafe u @ CHR ''?'' # remove_unsafe q"
  by (simp add: remove_unsafe_def)

lemma query_not_scheme_char: "CHR ''?'' \<notin> set scheme_chars"
  by (simp add: scheme_chars_def ascii_letters_def)

lemma split_scheme_query:
  "split_scheme (u @ CHR ''?'' # q) = (fst (split_scheme u), snd (split_scheme u) @ CHR ''?'' # q)"
proof (cases "CHR '':'' \<in> set u")
  case True
  then have tw: "takeWhile (\<lambda>c. c \<noteq> CHR '':'') (u @ CHR ''?'' # q)
      = takeWhile (\<lambda>c. c \<noteq> CHR '':'') u"
    by simp
  from True have ne: "u \<noteq> []" by auto
  have len: "length (takeWhile (\<lambda>c. c \<noteq> CHR '':'') u) + 1 \<le> length u"
    using True by (induction u) auto
  show ?thesis
    using True ne len by (simp add: split_scheme_def tw Let_def del: takeWhile_append1)
next
  case False
  then have tw: "takeWhile (\<lambda>c. c \<noteq> CHR '':'') (u @ CHR ''?'' # q)
      = u @ CHR ''?'' # takeWhile (\<lambda>c. c \<noteq> CHR '':'') q"
    by (subst takeWhile_append2) auto
  show ?thesis
    using False query_not_scheme_char
    by (simp add: split_scheme_def tw Let_def del: takeWhile_append2)
qed

lemma take2_query: "(take 2 (r @ CHR ''?'' # q) = ''//'') = (take 2 r = ''//'')"
proof (cases r)
  case Nil
  then show ?thesis by simp
next
  case (Cons a r')
  then show ?thesis by (cases r') simp_all
qed

lemma splitnetloc_query:
  assumes "take 2 r = ''//''"
  shows "splitnetloc (r @ CHR ''?'' # q) = (fst (splitnetloc r), snd (splitnetloc r) @ CHR ''?'' # q)"
proof -
  from assms have "2 \<le> length r" by (cases r; cases "tl r") auto
  then have d: "drop 2 (r @ CHR ''?'' # q) = drop 2 r @ CHR ''?'' # q" by simp
  show ?thesis
    unfolding splitnetloc_def d
    by (simp add: takeWhile_tail dropWhile_append3 is_delim_def)
qed

lemma cut_fragment_query:
  "takeWhile (\<lambda>c. c \<noteq> CHR ''?'') (takeWhile (\<lambda>c. c \<noteq> CHR ''#'') (xs @ CHR ''?'' # ys))
   = takeWhile (\<lambda>c. c \<noteq> CHR ''?'') (takeWhile (\<lambda>c. c \<noteq> CHR ''#'') xs)"
  by (induction xs) simp_all

lemma urlparse_path_query: "urlparse_path w (p @ CHR ''?'' # q) = urlparse_path w p"
proof -
  define u where "u = remove_unsafe (lstrip_c0 p)"
  define q' where "q' = remove_unsafe q"
  have u1: "remove_unsafe (lstrip_c0 (p @ CHR ''?'' # q)) = u @ CHR ''?'' # q'"
    by (simp only: lstrip_c0_query remove_unsafe_query u_def q'_def)
  obtain s r where sr: "split_scheme u = (s, r)" by (cases "split_scheme u")
  then have sr': "split_scheme (u @ CHR ''?'' # q') = (s, r @ CHR ''?'' # q')"
    by (simp add: split_scheme_query)
  show ?thesis
  proof (cases "take 2 r = ''//''")
    case True
    obtain n t where nt: "splitnetloc r = (n, t)" by (cases "splitnetloc r")
    with True have nt': "splitnetloc (r @ CHR ''?'' # q') = (n, t @ CHR ''?'' # q')"
      by (simp add: splitnetloc_query)
    from True have T': "take 2 (r @ CHR ''?'' # q') = ''//''" by (simp only: take2_query)
    show ?thesis
      unfolding urlparse_path_def u1 u_def [symmetric] sr sr' Let_def prod.case
      using True T' by (simp add: nt nt' cut_fragment_query)
  next
    case False
    then have F': "take 2 (r @ CHR ''?'' # q') \<noteq> ''//''"
      by (simp only: take2_query not_False_eq_True)
    show ?thesis
      unfolding urlparse_path_def u1 u_def [symmetric] sr sr' Let_def prod.case
      using False F' by (simp add: cut_fragment_query)
  qed
qed

lemma urlparse_path_world:
  assumes "bracketed_netloc_ok w' = bracketed_netloc_ok w"
    and "nfkc_netloc_ok w' = nfkc_netloc_ok w"
  shows "urlparse_path w' raw = urlparse_path w raw"
  unfolding urlparse_path_def assms by (rule refl)

section \<open>The two branches of the handler\<close>

lemma do_GET_api:
  "urlparse_path w raw = Inr path \<Longrightarrow> prefix ''/api/'' path \<Longrightarrow>
   do_GET w raw = (Print (''Request received: '' @ path) # handle_api w path, None)"
  by (simp add: do_GET_def)

lemma do_GET_static:
  assumes "urlparse_path w raw = Inr path" and "\<not> prefix ''/api/'' path"
  shows "do_GET w raw =
    (let path' = (if path = ''/'' then ''/index.html'' else path);
         (events1, raised1) = try_file w path'
     in if raised1 = Some FileNotFoundError then
          (let (events2, raised2) = try_index w
           in if raised2 = Some FileNotFoundError
              then (Print (''Request received: '' @ path) # events1 @ events2 @ not_found, None)
              else (Print (''Request received: '' @ path) # events1 @ events2, raised2))
        else (Print (''Request received: '' @ path) # events1, raised1))"
  using assms by (simp add: do_GET_def Let_def split: prod.splits)

lemma do_GET_root_index:
  assumes "urlparse_path w raw = Inr ''/''" and "urlparse_path w raw' = Inr ''/index.html''"
  shows "sent (do_GET w raw) = sent (do_GET w raw')"
    and "snd (do_GET w raw) = snd (do_GET w raw')"
    and "opened (fst (do_GET w raw)) = opened (fst (do_GET w raw'))"
  using assms by (simp_all add: do_GET_def sent_def Let_def split: prod.splits)

lemma opened_append: "opened (xs @ ys) = opened xs @ opened ys"
  by (induction xs rule: opened.induct) simp_all

lemma opened_handle_api: "opened (handle_api w path) = []"
  by (simp add: handle_api_def)

lemma opened_try_file: "opened (fst (try_file w p)) = [''.'' @ p]"
  by (simp add: try_file_def Let_def split: sum.splits)

lemma opened_try_index: "opened (fst (try_index w)) = [''./index.html'']"
  by (simp add: try_index_def Let_def split: sum.splits)

lemma opened_not_found: "opened not_found = []"
  by (simp add: not_found_def)

section \<open>The bytes of a response\<close>

lemma wire_from_world:
  assumes "version_string w' = version_string w" and "date_time_string w' = date_time_string w"
  shows "wire_from w' buffer n events = wire_from w buffer n events"
proof (induction events arbitrary: buffer n)
  case Nil
  show ?case by simp
next
  case (Cons e events)
  then show ?case by (cases e) (simp_all add: assms)
qed

lemma wire_world:
  "version_string w' = version_string w \<Longrightarrow> date_time_string w' = date_time_string w \<Longrightarrow>
   wire w' events = wire w events"
  unfolding wire_def by (rule wire_from_world)

text \<open>
  The static path calls \<^verbatim>\<open>send_response\<close> first (line 39): the status line is the first line
  of what is written.
\<close>

lemma static_wire:
  assumes "urlparse_path w raw = Inr path" and "\<not> prefix ''/api/'' path"
    and "path' = (if path = ''/'' then ''/index.html'' else path)"
    and "open_rb w (''.'' @ path') = Inr (Inr data)"
  shows "wire w (fst (do_GET w raw)) =
      status_line 200 @ header_line ''Server'' (version_string w)
        @ header_line ''Date'' (date_time_string w 0)
        @ header_line ''Content-type'' (content_type path') @ crlf @ data"
proof -
  have "try_file w path' =
      ([Open (''.'' @ path'), SendResponse 200,
        SendHeader ''Content-type'' (content_type path'), EndHeaders, Write data], None)"
    using assms(4) by (simp add: try_file_def)
  then show ?thesis
    using assms(3) by (simp add: do_GET_static [OF assms(1,2)] wire_def)
qed

text \<open>
  \<open>handle_api\<close> calls \<^verbatim>\<open>send_header\<close> first (line 76) and \<^verbatim>\<open>send_response\<close> after it: the
  header line is the first line of what is written and the status line the second.
\<close>

lemma wire_handle_api:
  "handle_api w path =
     [SendHeader ''Content-type'' ''application/json'', SendResponse code, EndHeaders, Write body]
   \<Longrightarrow> wire w (Print s # handle_api w path) =
      header_line ''Content-type'' ''application/json'' @ status_line code
        @ header_line ''Server'' (version_string w) @ header_line ''Date'' (date_time_string w 0)
        @ crlf @ body"
  by (simp add: wire_def)

lemma header_line_no_status: "\<not> prefix ''HTTP/'' (header_line ''Content-type'' v @ rest)"
  by (simp add: header_line_def)

section \<open>Routing\<close>

text \<open>
  Claim C1. The query string is discarded before routing: a request path with
  \<^verbatim>\<open>?\<close> and any text appended has the outcome of the path without it. A path that begins
  with \<^verbatim>\<open>/api/\<close> goes to \<open>handle_api\<close>, whose events are the whole response, and no file is
  opened. The path \<^verbatim>\<open>/\<close> is served as \<^verbatim>\<open>/index.html\<close>: the two requests send the client the
  same events, open the same files and end the same way (the printed line alone differs).
\<close>

theorem routing:
  "do_GET w (p @ ''?'' @ q) = do_GET w p
   \<and> (urlparse_path w raw = Inr path \<and> prefix ''/api/'' path \<longrightarrow>
        do_GET w raw = (Print (''Request received: '' @ path) # handle_api w path, None)
        \<and> opened (fst (do_GET w raw)) = [])
   \<and> (urlparse_path w raw_root = Inr ''/'' \<and> urlparse_path w raw_index = Inr ''/index.html'' \<longrightarrow>
        sent (do_GET w raw_root) = sent (do_GET w raw_index)
        \<and> snd (do_GET w raw_root) = snd (do_GET w raw_index)
        \<and> opened (fst (do_GET w raw_root)) = opened (fst (do_GET w raw_index)))"
proof (intro conjI impI)
  show "do_GET w (p @ ''?'' @ q) = do_GET w p"
    by (simp add: do_GET_def urlparse_path_query)
next
  assume api: "urlparse_path w raw = Inr path \<and> prefix ''/api/'' path"
  then show "do_GET w raw = (Print (''Request received: '' @ path) # handle_api w path, None)"
    by (simp add: do_GET_api)
  from api show "opened (fst (do_GET w raw)) = []"
    by (simp add: do_GET_api opened_handle_api)
next
  assume both: "urlparse_path w raw_root = Inr ''/'' \<and> urlparse_path w raw_index = Inr ''/index.html''"
  then show "sent (do_GET w raw_root) = sent (do_GET w raw_index)"
    by (simp add: do_GET_root_index)
  from both show "snd (do_GET w raw_root) = snd (do_GET w raw_index)"
    by (simp add: do_GET_root_index)
  from both show "opened (fst (do_GET w raw_root)) = opened (fst (do_GET w raw_index))"
    by (simp add: do_GET_root_index)
qed

text \<open>The three parts at work in \<open>demo_world\<close>.\<close>

theorem routing_witness:
  "do_GET demo_world ''/app.js?v=1'' = do_GET demo_world ''/app.js''
   \<and> do_GET demo_world ''/api/health'' =
       (Print ''Request received: /api/health'' # handle_api demo_world ''/api/health'', None)
   \<and> opened (fst (do_GET demo_world ''/api/health'')) = []
   \<and> sent (do_GET demo_world ''/'') = sent (do_GET demo_world ''/index.html'')
   \<and> sent (do_GET demo_world ''/'') =
       [SendResponse 200, SendHeader ''Content-type'' ''text/html'', EndHeaders,
        Write ''<html>hi</html>'']"
proof -
  have ct: "content_type ''/index.html'' = ''text/html''"
    unfolding content_type_def suffix_to_prefix by simp
  have served: "sent (do_GET demo_world ''/'') =
      [SendResponse 200, SendHeader ''Content-type'' ''text/html'', EndHeaders,
       Write ''<html>hi</html>'']"
    by (simp add: do_GET_def urlparse_root try_file_def demo_world_def sent_def Let_def ct)
  have api: "urlparse_path demo_world ''/api/health'' = Inr ''/api/health''
      \<and> prefix ''/api/'' ''/api/health''"
    by (simp add: urlparse_api_health)
  have both: "urlparse_path demo_world ''/'' = Inr ''/''
      \<and> urlparse_path demo_world ''/index.html'' = Inr ''/index.html''"
    by (simp add: urlparse_root urlparse_index)
  note r = routing [of demo_world "''/app.js''" "''v=1''" "''/api/health''" "''/api/health''"
      "''/''" "''/index.html''"]
  have query: "do_GET demo_world ''/app.js?v=1'' = do_GET demo_world ''/app.js''"
    using r [THEN conjunct1] by simp
  note dispatched = r [THEN conjunct2, THEN conjunct1, THEN mp, OF api]
  note rewritten = r [THEN conjunct2, THEN conjunct2, THEN mp, OF both]
  have to_api: "do_GET demo_world ''/api/health'' =
      (Print ''Request received: /api/health'' # handle_api demo_world ''/api/health'', None)"
    using dispatched [THEN conjunct1] by simp
  have no_file: "opened (fst (do_GET demo_world ''/api/health'')) = []"
    by (rule dispatched [THEN conjunct2])
  have same_sent: "sent (do_GET demo_world ''/'') = sent (do_GET demo_world ''/index.html'')"
    by (rule rewritten [THEN conjunct1])
  show ?thesis
    by (intro conjI) (rule query, rule to_api, rule no_file, rule same_sent, rule served)
qed

section \<open>Static files\<close>

lemma content_type_html: "suffix ''.html'' p \<Longrightarrow> content_type p = ''text/html''"
  by (simp add: content_type_def)

lemma content_type_css: "suffix ''.css'' p \<Longrightarrow> content_type p = ''text/css''"
  by (auto simp: suffix_def content_type_def)

lemma content_type_js: "suffix ''.js'' p \<Longrightarrow> content_type p = ''text/javascript''"
  by (auto simp: suffix_def content_type_def)

lemma content_type_json: "suffix ''.json'' p \<Longrightarrow> content_type p = ''application/json''"
  by (auto simp: suffix_def content_type_def)

lemma content_type_jpg: "suffix ''.jpg'' p \<Longrightarrow> content_type p = ''image/jpeg''"
  by (auto simp: suffix_def content_type_def)

lemma content_type_jpeg: "suffix ''.jpeg'' p \<Longrightarrow> content_type p = ''image/jpeg''"
  by (auto simp: suffix_def content_type_def)

lemma content_type_png: "suffix ''.png'' p \<Longrightarrow> content_type p = ''image/png''"
  by (auto simp: suffix_def content_type_def)

text \<open>
  No suffix of the table ends another one, so the order of the tests in the source does
  not matter: an entry whose suffix ends the path gives the content type.
\<close>

lemma content_type_lookup:
  assumes "(ext, t) \<in> set content_type_table" and "suffix ext p"
  shows "content_type p = t"
proof -
  have "(ext = ''.html'' \<and> t = ''text/html'') \<or> (ext = ''.css'' \<and> t = ''text/css'')
      \<or> (ext = ''.js'' \<and> t = ''text/javascript'') \<or> (ext = ''.json'' \<and> t = ''application/json'')
      \<or> (ext = ''.jpg'' \<and> t = ''image/jpeg'') \<or> (ext = ''.jpeg'' \<and> t = ''image/jpeg'')
      \<or> (ext = ''.png'' \<and> t = ''image/png'')"
    using assms(1) by (simp add: content_type_table_def)
  with assms(2) show ?thesis
    by (elim disjE conjE)
      (simp_all only: content_type_html content_type_css content_type_js content_type_json
         content_type_jpg content_type_jpeg content_type_png)
qed

lemma content_type_default:
  "\<forall>(ext, t) \<in> set content_type_table. \<not> suffix ext p \<Longrightarrow>
   content_type p = ''application/octet-stream''"
  by (simp add: content_type_table_def content_type_def)

lemma content_type_app_js: "content_type ''/app.js'' = ''text/javascript''"
  unfolding content_type_def suffix_to_prefix by simp

lemma content_type_upper_case: "content_type ''/APP.JS'' = ''application/octet-stream''"
  unfolding content_type_def suffix_to_prefix by simp

lemma content_type_broken_css: "content_type ''/broken.css'' = ''text/css''"
  unfolding content_type_def suffix_to_prefix by simp

text \<open>
  Claim C2. For a path \<open>path'\<close> outside \<^verbatim>\<open>/api/\<close> (after the rewrite of \<^verbatim>\<open>/\<close>), when the file
  \<^verbatim>\<open>.\<close> + \<open>path'\<close> exists, that is \<^verbatim>\<open>open\<close> returns it and \<^verbatim>\<open>read\<close> returns its bytes, the
  handler sends status 200, one \<^verbatim>\<open>Content-type\<close> header, and the bytes of the file as they
  are. The header is the one of the extension table for a suffix of the table that ends
  the path, whatever the order of the table, and \<^verbatim>\<open>application/octet-stream\<close> when none
  does; suffixes are compared character by character.
\<close>

theorem static_asset:
  assumes "urlparse_path w raw = Inr path" and "\<not> prefix ''/api/'' path"
    and "path' = (if path = ''/'' then ''/index.html'' else path)"
    and "open_rb w (''.'' @ path') = Inr (Inr data)"
  shows "do_GET w raw =
      ([Print (''Request received: '' @ path), Open (''.'' @ path'), SendResponse 200,
        SendHeader ''Content-type'' (content_type path'), EndHeaders, Write data], None)
    \<and> (\<forall>ext t. (ext, t) \<in> set content_type_table \<and> suffix ext path' \<longrightarrow> content_type path' = t)
    \<and> ((\<forall>(ext, t) \<in> set content_type_table. \<not> suffix ext path') \<longrightarrow>
         content_type path' = ''application/octet-stream'')"
proof -
  have "try_file w path' =
      ([Open (''.'' @ path'), SendResponse 200,
        SendHeader ''Content-type'' (content_type path'), EndHeaders, Write data], None)"
    using assms(4) by (simp add: try_file_def)
  then have "do_GET w raw =
      ([Print (''Request received: '' @ path), Open (''.'' @ path'), SendResponse 200,
        SendHeader ''Content-type'' (content_type path'), EndHeaders, Write data], None)"
    using assms(3) by (simp add: do_GET_static [OF assms(1,2)])
  moreover have "\<forall>ext t. (ext, t) \<in> set content_type_table \<and> suffix ext path'
      \<longrightarrow> content_type path' = t"
    using content_type_lookup by (intro allI impI) (elim conjE)
  moreover have "(\<forall>(ext, t) \<in> set content_type_table. \<not> suffix ext path') \<longrightarrow>
         content_type path' = ''application/octet-stream''"
    using content_type_default by (intro impI)
  ultimately show ?thesis
    by (intro conjI)
qed

text \<open>A script of \<open>demo_world\<close>, asked for with a query string.\<close>

theorem static_asset_witness:
  "do_GET demo_world ''/app.js?v=1'' =
      ([Print ''Request received: /app.js'', Open ''./app.js'', SendResponse 200,
        SendHeader ''Content-type'' ''text/javascript'', EndHeaders, Write ''let x;''], None)
   \<and> content_type ''/APP.JS'' = ''application/octet-stream''"
proof -
  have parsed: "urlparse_path demo_world ''/app.js?v=1'' = Inr ''/app.js''"
    by (rule urlparse_app_js)
  have no_api: "\<not> prefix ''/api/'' ''/app.js''"
    by simp
  have same: "''/app.js'' = (if ''/app.js'' = ''/'' then ''/index.html'' else ''/app.js'')"
    by simp
  have readable: "open_rb demo_world (''.'' @ ''/app.js'') = Inr (Inr ''let x;'')"
    by (simp add: demo_world_def)
  from static_asset [OF parsed no_api same readable]
  have "do_GET demo_world ''/app.js?v=1'' =
      ([Print (''Request received: '' @ ''/app.js''), Open (''.'' @ ''/app.js''), SendResponse 200,
        SendHeader ''Content-type'' (content_type ''/app.js''), EndHeaders, Write ''let x;''], None)"
    by (rule conjunct1)
  then show ?thesis
    by (simp add: content_type_app_js content_type_upper_case)
qed

text \<open>
  Claim C3 says that every path outside \<^verbatim>\<open>/api/\<close> whose file is absent is answered from
  \<^verbatim>\<open>index.html\<close>, or with 404. It is not: in \<open>demo_world\<close> \<^verbatim>\<open>./app.js\<close> is a file, so no file
  is named \<^verbatim>\<open>./app.js/x\<close>; \<^verbatim>\<open>open\<close> raises \<^verbatim>\<open>NotADirectoryError\<close> for it, the
  \<^verbatim>\<open>except FileNotFoundError\<close> of line 59 does not match, and with \<^verbatim>\<open>index.html\<close> there to be
  served the request ends in the exception, with no byte written to the client.
\<close>

theorem not_a_directory_escapes:
  "open_rb demo_world ''./app.js'' = Inr (Inr ''let x;'')
   \<and> open_rb demo_world ''./app.js/x'' = Inl NotADirectoryError
   \<and> open_rb demo_world ''./index.html'' = Inr (Inr ''<html>hi</html>'')
   \<and> do_GET demo_world ''/app.js/x'' =
       ([Print ''Request received: /app.js/x'', Open ''./app.js/x''], Some NotADirectoryError)
   \<and> sent (do_GET demo_world ''/app.js/x'') = []
   \<and> wire demo_world (fst (do_GET demo_world ''/app.js/x'')) = []"
  by (simp add: do_GET_def urlparse_nested try_file_def demo_world_def sent_def wire_def)

text \<open>
  Claim C3, as the code has it. For a path outside \<^verbatim>\<open>/api/\<close> whose file is not found, that
  is \<^verbatim>\<open>open\<close> raises \<^verbatim>\<open>FileNotFoundError\<close>, the handler opens \<^verbatim>\<open>./index.html\<close>: when that
  file is there it sends 200, \<^verbatim>\<open>Content-type: text/html\<close> and its bytes; when it is not
  found either, it sends 404, \<^verbatim>\<open>Content-type: text/html\<close> and the body \<^verbatim>\<open>404 Not Found\<close>.
\<close>

theorem spa_fallback:
  assumes "urlparse_path w raw = Inr path" and "\<not> prefix ''/api/'' path"
    and "path' = (if path = ''/'' then ''/index.html'' else path)"
    and "open_rb w (''.'' @ path') = Inl FileNotFoundError"
  shows "(open_rb w ''./index.html'' = Inr (Inr data) \<longrightarrow>
        do_GET w raw =
          ([Print (''Request received: '' @ path), Open (''.'' @ path'), Open ''./index.html'',
            SendResponse 200, SendHeader ''Content-type'' ''text/html'', EndHeaders,
            Write data], None))
    \<and> (open_rb w ''./index.html'' = Inl FileNotFoundError \<longrightarrow>
        do_GET w raw =
          ([Print (''Request received: '' @ path), Open (''.'' @ path'), Open ''./index.html'',
            SendResponse 404, SendHeader ''Content-type'' ''text/html'', EndHeaders,
            Write ''404 Not Found''], None))"
proof -
  have "try_file w path' = ([Open (''.'' @ path')], Some FileNotFoundError)"
    using assms(4) by (simp add: try_file_def)
  then show ?thesis
    using assms(3) by (simp add: do_GET_static [OF assms(1,2)] try_index_def not_found_def)
qed

text \<open>The same absent path with and without an \<^verbatim>\<open>index.html\<close>.\<close>

theorem spa_fallback_witness:
  "do_GET demo_world ''/nothing/here'' =
     ([Print ''Request received: /nothing/here'', Open ''./nothing/here'', Open ''./index.html'',
       SendResponse 200, SendHeader ''Content-type'' ''text/html'', EndHeaders,
       Write ''<html>hi</html>''], None)
   \<and> do_GET empty_world ''/nothing/here'' =
     ([Print ''Request received: /nothing/here'', Open ''./nothing/here'', Open ''./index.html'',
       SendResponse 404, SendHeader ''Content-type'' ''text/html'', EndHeaders,
       Write ''404 Not Found''], None)"
proof -
  have no_api: "\<not> prefix ''/api/'' ''/nothing/here''"
    by simp
  have same: "''/nothing/here''
      = (if ''/nothing/here'' = ''/'' then ''/index.html'' else ''/nothing/here'')"
    by simp
  have absent: "open_rb demo_world (''.'' @ ''/nothing/here'') = Inl FileNotFoundError"
    by (simp add: demo_world_def)
  have absent': "open_rb empty_world (''.'' @ ''/nothing/here'') = Inl FileNotFoundError"
    by (simp add: empty_world_def)
  have index: "open_rb demo_world ''./index.html'' = Inr (Inr ''<html>hi</html>'')"
    by (simp add: demo_world_def)
  have no_index: "open_rb empty_world ''./index.html'' = Inl FileNotFoundError"
    by (simp add: empty_world_def)
  have "do_GET demo_world ''/nothing/here'' =
     ([Print ''Request received: /nothing/here'', Open ''./nothing/here'', Open ''./index.html'',
       SendResponse 200, SendHeader ''Content-type'' ''text/html'', EndHeaders,
       Write ''<html>hi</html>''], None)"
    using spa_fallback [OF urlparse_nothing no_api same absent, THEN conjunct1, THEN mp, OF index]
    by simp
  moreover have "do_GET empty_world ''/nothing/here'' =
     ([Print ''Request received: /nothing/here'', Open ''./nothing/here'', Open ''./index.html'',
       SendResponse 404, SendHeader ''Content-type'' ''text/html'', EndHeaders,
       Write ''404 Not Found''], None)"
    using spa_fallback [OF urlparse_nothing no_api same absent', THEN conjunct2, THEN mp,
        OF no_index]
    by simp
  ultimately show ?thesis
    by (intro conjI)
qed

section \<open>The API\<close>

lemma dumps_error_response:
  "dumps error_response
     = ''{'' @ quoted ''error'' @ '': '' @ quoted ''API endpoint not found'' @ ''}''"
  by (simp add: error_response_def quoted_def encode_basestring_ascii_def escape_char_def)

lemma body_error_response:
  "encode (dumps error_response)
     = ''{'' @ quoted ''error'' @ '': '' @ quoted ''API endpoint not found'' @ ''}''"
  unfolding encode_dumps by (rule dumps_error_response)

lemma do_GET_status:
  "urlparse_path w raw = Inr ''/api/solana/status'' \<Longrightarrow>
   do_GET w raw =
     ([Print ''Request received: /api/solana/status'',
       SendHeader ''Content-type'' ''application/json'', SendResponse 200, EndHeaders]
      @ [Write (encode (dumps (status_response w)))], None)"
  by (simp add: do_GET_def handle_api_def)

lemma do_GET_agents:
  "urlparse_path w raw = Inr ''/api/agents'' \<Longrightarrow>
   do_GET w raw =
     ([Print ''Request received: /api/agents'',
       SendHeader ''Content-type'' ''application/json'', SendResponse 200, EndHeaders]
      @ [Write (encode (dumps (agents w)))], None)"
  by (simp add: do_GET_def handle_api_def)

text \<open>
  Claim C4. In every environment the document of \<^verbatim>\<open>/api/solana/status\<close> has \<^verbatim>\<open>customRpc\<close>
  true exactly when \<^verbatim>\<open>INSTANT_NODES_RPC_URL\<close> is in the environment, \<^verbatim>\<open>apiKey\<close> true whatever
  the environment holds, \<^verbatim>\<open>status\<close> \<^verbatim>\<open>operational\<close> and \<^verbatim>\<open>network\<close> \<^verbatim>\<open>mainnet-beta\<close>; the
  response is 200 with this document as its body.
\<close>

theorem status_document:
  "(urlparse_path w raw = Inr ''/api/solana/status'' \<longrightarrow>
      do_GET w raw =
        ([Print ''Request received: /api/solana/status'',
          SendHeader ''Content-type'' ''application/json'', SendResponse 200, EndHeaders,
          Write (encode (dumps (status_response w)))], None))
   \<and> keys (status_response w) = [''status'', ''customRpc'', ''apiKey'', ''network'', ''timestamp'']
   \<and> field ''customRpc'' (status_response w)
       = Some (JBool (environ w ''INSTANT_NODES_RPC_URL'' \<noteq> None))
   \<and> field ''apiKey'' (status_response w) = Some (JBool True)
   \<and> field ''status'' (status_response w) = Some (JStr ''operational'')
   \<and> field ''network'' (status_response w) = Some (JStr ''mainnet-beta'')"
  by (simp add: do_GET_status status_response_def)

text \<open>With the variable (\<open>demo_world\<close>) and without any variable (\<open>empty_world\<close>).\<close>

theorem status_document_witness:
  "environ demo_world ''INSTANT_NODES_RPC_URL'' \<noteq> None
   \<and> environ empty_world ''INSTANT_NODES_RPC_URL'' = None
   \<and> environ empty_world ''SOLANA_RPC_API_KEY'' = None
   \<and> field ''customRpc'' (status_response demo_world) = Some (JBool True)
   \<and> field ''customRpc'' (status_response empty_world) = Some (JBool False)
   \<and> field ''apiKey'' (status_response empty_world) = Some (JBool True)
   \<and> do_GET empty_world ''/api/solana/status'' =
        ([Print ''Request received: /api/solana/status'',
          SendHeader ''Content-type'' ''application/json'', SendResponse 200, EndHeaders,
          Write (encode (dumps (status_response empty_world)))], None)"
proof -
  have present: "environ demo_world ''INSTANT_NODES_RPC_URL'' \<noteq> None"
    by (simp add: demo_world_def)
  have absent: "environ empty_world ''INSTANT_NODES_RPC_URL'' = None"
    and no_key: "environ empty_world ''SOLANA_RPC_API_KEY'' = None"
    by (simp_all add: empty_world_def)
  note d = status_document [of demo_world "''/api/solana/status''"]
  note e = status_document [of empty_world "''/api/solana/status''"]
  have custom: "field ''customRpc'' (status_response demo_world) = Some (JBool True)"
    using d present by simp
  have custom': "field ''customRpc'' (status_response empty_world) = Some (JBool False)"
    using e absent by simp
  have key: "field ''apiKey'' (status_response empty_world) = Some (JBool True)"
    using e by simp
  have response: "do_GET empty_world ''/api/solana/status'' =
        ([Print ''Request received: /api/solana/status'',
          SendHeader ''Content-type'' ''application/json'', SendResponse 200, EndHeaders,
          Write (encode (dumps (status_response empty_world)))], None)"
    by (rule e [THEN conjunct1, THEN mp, OF urlparse_api_status])
  show ?thesis
    by (intro conjI) (rule present, rule absent, rule no_key, rule custom, rule custom', rule key,
      rule response)
qed

text \<open>
  The calls of \<open>handle_api\<close>. On every branch it calls \<^verbatim>\<open>send_header\<close> with
  \<^verbatim>\<open>Content-type: application/json\<close> first and \<^verbatim>\<open>send_response\<close> after it. For every path
  other than \<^verbatim>\<open>/api/health\<close>, \<^verbatim>\<open>/api/solana/status\<close> and \<^verbatim>\<open>/api/agents\<close>, compared as they
  are, the code passed is 404 and the body is the text
  \<^verbatim>\<open>{"error": "API endpoint not found"}\<close>.
\<close>

lemma api_dispatcher:
  "(\<exists>code body. handle_api w path =
      [SendHeader ''Content-type'' ''application/json'', SendResponse code, EndHeaders, Write body])
   \<and> (path \<noteq> ''/api/health'' \<and> path \<noteq> ''/api/solana/status'' \<and> path \<noteq> ''/api/agents'' \<longrightarrow>
      handle_api w path =
        [SendHeader ''Content-type'' ''application/json'', SendResponse 404, EndHeaders,
         Write (''{'' @ quoted ''error'' @ '': '' @ quoted ''API endpoint not found'' @ ''}'')])
   \<and> (urlparse_path w raw = Inr path \<and> prefix ''/api/'' path \<longrightarrow>
      do_GET w raw = (Print (''Request received: '' @ path) # handle_api w path, None))"
  using body_error_response by (simp add: handle_api_def do_GET_api)

text \<open>A trailing slash is another path.\<close>

lemma api_dispatcher_example:
  "do_GET demo_world ''/api/health/'' =
     ([Print ''Request received: /api/health/'',
       SendHeader ''Content-type'' ''application/json'', SendResponse 404, EndHeaders,
       Write (''{'' @ quoted ''error'' @ '': '' @ quoted ''API endpoint not found'' @ ''}'')], None)"
proof -
  have other: "''/api/health/'' \<noteq> ''/api/health'' \<and> ''/api/health/'' \<noteq> ''/api/solana/status''
      \<and> ''/api/health/'' \<noteq> ''/api/agents''"
    by simp
  have api: "urlparse_path demo_world ''/api/health/'' = Inr ''/api/health/''
      \<and> prefix ''/api/'' ''/api/health/''"
    by (simp add: urlparse_api_health_slash)
  note a = api_dispatcher [of demo_world "''/api/health/''" "''/api/health/''"]
  from a [THEN conjunct2, THEN conjunct1, THEN mp, OF other]
    a [THEN conjunct2, THEN conjunct2, THEN mp, OF api]
  show ?thesis
    by simp
qed

text \<open>
  The calls for \<^verbatim>\<open>/api/agents\<close>: the code passed to \<^verbatim>\<open>send_response\<close> is 200 and the body is
  a JSON array of two objects; each has the keys
  \<^verbatim>\<open>id name type status active wallets metrics\<close>, and the \<^verbatim>\<open>successRate\<close> of its \<^verbatim>\<open>metrics\<close>
  is a number between 0 and 1.
\<close>

lemma agents_document:
  "(urlparse_path w raw = Inr ''/api/agents'' \<longrightarrow>
      do_GET w raw =
        ([Print ''Request received: /api/agents'',
          SendHeader ''Content-type'' ''application/json'', SendResponse 200, EndHeaders,
          Write (encode (dumps (agents w)))], None))
   \<and> (\<exists>a b. agents w = JList [a, b]
        \<and> keys a = [''id'', ''name'', ''type'', ''status'', ''active'', ''wallets'', ''metrics'']
        \<and> keys b = [''id'', ''name'', ''type'', ''status'', ''active'', ''wallets'', ''metrics'']
        \<and> (\<exists>m k. Option.bind (field ''metrics'' a) (field ''successRate'') = Some (JFloat m k)
               \<and> 0 \<le> float_value m k \<and> float_value m k \<le> 1)
        \<and> (\<exists>m k. Option.bind (field ''metrics'' b) (field ''successRate'') = Some (JFloat m k)
               \<and> 0 \<le> float_value m k \<and> float_value m k \<le> 1))"
  by (simp add: do_GET_agents agents_def float_value_def)

lemma agents_document_example:
  "do_GET demo_world ''/api/agents'' =
        ([Print ''Request received: /api/agents'',
          SendHeader ''Content-type'' ''application/json'', SendResponse 200, EndHeaders,
          Write (encode (dumps (agents demo_world)))], None)
   \<and> (\<exists>a b. agents demo_world = JList [a, b])"
proof -
  note a = agents_document [of demo_world "''/api/agents''"]
  have "do_GET demo_world ''/api/agents'' =
        ([Print ''Request received: /api/agents'',
          SendHeader ''Content-type'' ''application/json'', SendResponse 200, EndHeaders,
          Write (encode (dumps (agents demo_world)))], None)"
    by (rule a [THEN conjunct1, THEN mp, OF urlparse_api_agents])
  moreover have "\<exists>a b. agents demo_world = JList [a, b]"
    using a [THEN conjunct2] by blast
  ultimately show ?thesis
    by (intro conjI)
qed

text \<open>
  Claim C5 holds of the calls, and fails for the response: since the header is sent before
  the status on every branch, as the claim says, every response to a path under
  \<^verbatim>\<open>/api/\<close> begins with the line \<^verbatim>\<open>Content-type: application/json\<close> and has its status line
  second. What the client reads first is no status line, so the response has no status,
  404 or other. The static path (\<open>static_wire\<close>) has the two calls in the other order.
\<close>

theorem api_status_line_second:
  "urlparse_path w raw = Inr path \<and> prefix ''/api/'' path \<longrightarrow>
     (\<exists>code body. wire w (fst (do_GET w raw)) =
        header_line ''Content-type'' ''application/json'' @ status_line code
          @ header_line ''Server'' (version_string w) @ header_line ''Date'' (date_time_string w 0)
          @ crlf @ body)
     \<and> \<not> prefix ''HTTP/'' (wire w (fst (do_GET w raw)))
     \<and> (path \<noteq> ''/api/health'' \<and> path \<noteq> ''/api/solana/status'' \<and> path \<noteq> ''/api/agents'' \<longrightarrow>
          wire w (fst (do_GET w raw)) =
            header_line ''Content-type'' ''application/json'' @ status_line 404
              @ header_line ''Server'' (version_string w)
              @ header_line ''Date'' (date_time_string w 0) @ crlf
              @ ''{'' @ quoted ''error'' @ '': '' @ quoted ''API endpoint not found'' @ ''}'')"
proof (intro impI)
  assume api: "urlparse_path w raw = Inr path \<and> prefix ''/api/'' path"
  then have run: "fst (do_GET w raw) = Print (''Request received: '' @ path) # handle_api w path"
    by (simp add: do_GET_api)
  from api_dispatcher [of w path, THEN conjunct1] obtain code body where calls:
    "handle_api w path =
      [SendHeader ''Content-type'' ''application/json'', SendResponse code, EndHeaders, Write body]"
    by (elim exE)
  have bytes: "wire w (fst (do_GET w raw)) =
        header_line ''Content-type'' ''application/json'' @ status_line code
          @ header_line ''Server'' (version_string w) @ header_line ''Date'' (date_time_string w 0)
          @ crlf @ body"
    unfolding run by (rule wire_handle_api [OF calls])
  have first: "\<not> prefix ''HTTP/'' (wire w (fst (do_GET w raw)))"
    unfolding bytes by (rule header_line_no_status)
  have other: "path \<noteq> ''/api/health'' \<and> path \<noteq> ''/api/solana/status'' \<and> path \<noteq> ''/api/agents'' \<longrightarrow>
          wire w (fst (do_GET w raw)) =
            header_line ''Content-type'' ''application/json'' @ status_line 404
              @ header_line ''Server'' (version_string w)
              @ header_line ''Date'' (date_time_string w 0) @ crlf
              @ ''{'' @ quoted ''error'' @ '': '' @ quoted ''API endpoint not found'' @ ''}''"
  proof
    assume "path \<noteq> ''/api/health'' \<and> path \<noteq> ''/api/solana/status'' \<and> path \<noteq> ''/api/agents''"
    then have "handle_api w path =
        [SendHeader ''Content-type'' ''application/json'', SendResponse 404, EndHeaders,
         Write (''{'' @ quoted ''error'' @ '': '' @ quoted ''API endpoint not found'' @ ''}'')]"
      by (rule api_dispatcher [of w path, THEN conjunct2, THEN conjunct1, THEN mp])
    then show "wire w (fst (do_GET w raw)) =
            header_line ''Content-type'' ''application/json'' @ status_line 404
              @ header_line ''Server'' (version_string w)
              @ header_line ''Date'' (date_time_string w 0) @ crlf
              @ ''{'' @ quoted ''error'' @ '': '' @ quoted ''API endpoint not found'' @ ''}''"
      unfolding run by (rule wire_handle_api)
  qed
  from bytes first other show "(\<exists>code body. wire w (fst (do_GET w raw)) =
        header_line ''Content-type'' ''application/json'' @ status_line code
          @ header_line ''Server'' (version_string w) @ header_line ''Date'' (date_time_string w 0)
          @ crlf @ body)
     \<and> \<not> prefix ''HTTP/'' (wire w (fst (do_GET w raw)))
     \<and> (path \<noteq> ''/api/health'' \<and> path \<noteq> ''/api/solana/status'' \<and> path \<noteq> ''/api/agents'' \<longrightarrow>
          wire w (fst (do_GET w raw)) =
            header_line ''Content-type'' ''application/json'' @ status_line 404
              @ header_line ''Server'' (version_string w)
              @ header_line ''Date'' (date_time_string w 0) @ crlf
              @ ''{'' @ quoted ''error'' @ '': '' @ quoted ''API endpoint not found'' @ ''}'')"
    by (intro conjI exI)
qed

text \<open>The bytes written for \<^verbatim>\<open>GET /api/health/\<close> in \<open>demo_world\<close>, line by line.\<close>

theorem api_status_line_second_witness:
  "wire demo_world (fst (do_GET demo_world ''/api/health/'')) =
     ''Content-type: application/json'' @ crlf
     @ ''HTTP/1.0 404 Not Found'' @ crlf
     @ ''Server: SimpleHTTP/0.6 Python/3.12.3'' @ crlf
     @ ''Date: Sat, 09 Mar 2024 07:05:58 GMT'' @ crlf
     @ crlf
     @ ''{'' @ quoted ''error'' @ '': '' @ quoted ''API endpoint not found'' @ ''}''
   \<and> \<not> prefix ''HTTP/'' (wire demo_world (fst (do_GET demo_world ''/api/health/'')))"
proof -
  have api: "urlparse_path demo_world ''/api/health/'' = Inr ''/api/health/''
      \<and> prefix ''/api/'' ''/api/health/''"
    by (simp add: urlparse_api_health_slash)
  have other: "''/api/health/'' \<noteq> ''/api/health'' \<and> ''/api/health/'' \<noteq> ''/api/solana/status''
      \<and> ''/api/health/'' \<noteq> ''/api/agents''"
    by simp
  note a = api_status_line_second [of demo_world "''/api/health/''" "''/api/health/''", THEN mp, OF api]
  have line404: "status_line 404 = ''HTTP/1.0 404 Not Found'' @ crlf"
    by (simp add: status_line_def reason_phrase_def dec.simps digit_char_def)
  have "wire demo_world (fst (do_GET demo_world ''/api/health/'')) =
     ''Content-type: application/json'' @ crlf
     @ ''HTTP/1.0 404 Not Found'' @ crlf
     @ ''Server: SimpleHTTP/0.6 Python/3.12.3'' @ crlf
     @ ''Date: Sat, 09 Mar 2024 07:05:58 GMT'' @ crlf
     @ crlf
     @ ''{'' @ quoted ''error'' @ '': '' @ quoted ''API endpoint not found'' @ ''}''"
    unfolding a [THEN conjunct2, THEN conjunct2, THEN mp, OF other] line404
    by (simp add: header_line_def demo_world_def)
  moreover note a [THEN conjunct2, THEN conjunct1]
  ultimately show ?thesis
    by (intro conjI)
qed

text \<open>A static file of the same world: the status line comes first.\<close>

lemma static_wire_example:
  "wire demo_world (fst (do_GET demo_world ''/app.js?v=1'')) =
     ''HTTP/1.0 200 OK'' @ crlf
     @ ''Server: SimpleHTTP/0.6 Python/3.12.3'' @ crlf
     @ ''Date: Sat, 09 Mar 2024 07:05:58 GMT'' @ crlf
     @ ''Content-type: text/javascript'' @ crlf
     @ crlf
     @ ''let x;''"
proof -
  have no_api: "\<not> prefix ''/api/'' ''/app.js''"
    by simp
  have same: "''/app.js'' = (if ''/app.js'' = ''/'' then ''/index.html'' else ''/app.js'')"
    by simp
  have readable: "open_rb demo_world (''.'' @ ''/app.js'') = Inr (Inr ''let x;'')"
    by (simp add: demo_world_def)
  have line200: "status_line 200 = ''HTTP/1.0 200 OK'' @ crlf"
    by (simp add: status_line_def reason_phrase_def dec.simps digit_char_def)
  show ?thesis
    unfolding static_wire [OF urlparse_app_js no_api same readable] line200 content_type_app_js
    by (simp add: header_line_def demo_world_def)
qed

text \<open>
  Claim C6 fails in the same way and from the same order of calls: the document of
  \<^verbatim>\<open>/api/agents\<close> is the one the claim describes (\<open>agents_document\<close>), but the bytes of the
  response begin with the header line, the line \<^verbatim>\<open>HTTP/1.0 200 OK\<close> is the second one, and
  the client reads no status 200.
\<close>

theorem agents_status_line_second:
  "urlparse_path w raw = Inr ''/api/agents'' \<longrightarrow>
     wire w (fst (do_GET w raw)) =
        header_line ''Content-type'' ''application/json'' @ status_line 200
          @ header_line ''Server'' (version_string w) @ header_line ''Date'' (date_time_string w 0)
          @ crlf @ encode (dumps (agents w))
     \<and> \<not> prefix ''HTTP/'' (wire w (fst (do_GET w raw)))"
proof (intro impI)
  assume p: "urlparse_path w raw = Inr ''/api/agents''"
  have bytes: "wire w (fst (do_GET w raw)) =
        header_line ''Content-type'' ''application/json'' @ status_line 200
          @ header_line ''Server'' (version_string w) @ header_line ''Date'' (date_time_string w 0)
          @ crlf @ encode (dumps (agents w))"
    by (simp add: do_GET_agents [OF p] wire_def)
  have "\<not> prefix ''HTTP/'' (wire w (fst (do_GET w raw)))"
    unfolding bytes by (rule header_line_no_status)
  with bytes show "wire w (fst (do_GET w raw)) =
        header_line ''Content-type'' ''application/json'' @ status_line 200
          @ header_line ''Server'' (version_string w) @ header_line ''Date'' (date_time_string w 0)
          @ crlf @ encode (dumps (agents w))
     \<and> \<not> prefix ''HTTP/'' (wire w (fst (do_GET w raw)))"
    by (intro conjI)
qed

text \<open>The bytes written for \<^verbatim>\<open>GET /api/agents\<close> in \<open>demo_world\<close>.\<close>

theorem agents_status_line_second_witness:
  "wire demo_world (fst (do_GET demo_world ''/api/agents'')) =
     ''Content-type: application/json'' @ crlf
     @ ''HTTP/1.0 200 OK'' @ crlf
     @ ''Server: SimpleHTTP/0.6 Python/3.12.3'' @ crlf
     @ ''Date: Sat, 09 Mar 2024 07:05:58 GMT'' @ crlf
     @ crlf
     @ encode (dumps (agents demo_world))
   \<and> \<not> prefix ''HTTP/'' (wire demo_world (fst (do_GET demo_world ''/api/agents'')))"
proof -
  note a = agents_status_line_second [of demo_world "''/api/agents''", THEN mp,
      OF urlparse_api_agents]
  have line200: "status_line 200 = ''HTTP/1.0 200 OK'' @ crlf"
    by (simp add: status_line_def reason_phrase_def dec.simps digit_char_def)
  have "wire demo_world (fst (do_GET demo_world ''/api/agents'')) =
     ''Content-type: application/json'' @ crlf
     @ ''HTTP/1.0 200 OK'' @ crlf
     @ ''Server: SimpleHTTP/0.6 Python/3.12.3'' @ crlf
     @ ''Date: Sat, 09 Mar 2024 07:05:58 GMT'' @ crlf
     @ crlf
     @ encode (dumps (agents demo_world))"
    unfolding a [THEN conjunct1] line200
    by (simp add: header_line_def demo_world_def)
  moreover note a [THEN conjunct2]
  ultimately show ?thesis
    by (intro conjI)
qed

section \<open>Timestamps\<close>

lemma dec_one_digit: "n < 10 \<Longrightarrow> dec n = [digit_char n]"
  by (simp add: dec.simps)

lemma dec_two_digits: "10 \<le> n \<Longrightarrow> n < 100 \<Longrightarrow> dec n = digits2 n"
  by (subst dec.simps) (simp add: dec_one_digit digits2_def)

lemma dec_three_digits:
  "100 \<le> n \<Longrightarrow> n < 1000 \<Longrightarrow>
   dec n = [digit_char (n div 100), digit_char (n div 10 mod 10), digit_char (n mod 10)]"
  by (subst dec.simps) (simp add: dec_two_digits digits2_def div_mult2_eq [symmetric])

lemma dec_four_digits: "1000 \<le> n \<Longrightarrow> n < 10000 \<Longrightarrow> dec n = digits4 n"
  by (subst dec.simps) (simp add: dec_three_digits digits4_def div_mult2_eq [symmetric])

lemma zfill_two: "n < 100 \<Longrightarrow> zfill 2 (dec n) = digits2 n"
proof (cases "n < 10")
  case True
  then show ?thesis
    by (simp add: dec_one_digit zfill_def digits2_def digit_char_def)
next
  case False
  assume "n < 100"
  with False show ?thesis
    by (simp add: dec_two_digits zfill_def digits2_def)
qed

text \<open>What the format string of the source makes of a time: the last five characters are
  copied from the format, they are not read from the clock.\<close>

lemma strftime_timestamp_format:
  "strftime timestamp_format t =
     dec (tm_year t) @ ''-'' @ zfill 2 (dec (tm_mon t)) @ ''-'' @ zfill 2 (dec (tm_mday t)) @ ''T''
       @ zfill 2 (dec (tm_hour t)) @ '':'' @ zfill 2 (dec (tm_min t)) @ '':''
       @ zfill 2 (dec (tm_sec t)) @ ''.000Z''"
  by (simp add: timestamp_format_def directive_def)

lemma strftime_iso: "valid_tm t \<Longrightarrow> strftime timestamp_format t = iso_timestamp t"
  unfolding strftime_timestamp_format iso_timestamp_def valid_tm_def
  by (simp add: zfill_two dec_four_digits)

lemma length_iso_timestamp: "length (iso_timestamp t) = 24"
  by (simp add: iso_timestamp_def digits2_def digits4_def)

lemma strftime_millis: "suffix ''.000Z'' (strftime timestamp_format t)"
  unfolding strftime_timestamp_format
  by (intro suffix_appendI) simp

text \<open>
  Claim C7. The \<^verbatim>\<open>timestamp\<close> of the status document and the \<^verbatim>\<open>lastExecution\<close> of each
  agent are \<^verbatim>\<open>time.gmtime()\<close>, read when the document is built, under the format of the
  source. Whatever the time, the text ends with the characters \<^verbatim>\<open>.000Z\<close>; for a time in
  the years 1000 to 9999 it is \<^verbatim>\<open>YYYY-MM-DDTHH:MM:SS.000Z\<close>, 24 characters.
\<close>

theorem timestamps:
  "field ''timestamp'' (status_response w) = Some (JStr (strftime timestamp_format (gmtime w 0)))
   \<and> (\<exists>a b. agents w = JList [a, b]
        \<and> Option.bind (field ''metrics'' a) (field ''lastExecution'')
            = Some (JStr (strftime timestamp_format (gmtime w 0)))
        \<and> Option.bind (field ''metrics'' b) (field ''lastExecution'')
            = Some (JStr (strftime timestamp_format (gmtime w 1))))
   \<and> suffix ''.000Z'' (strftime timestamp_format t)
   \<and> (valid_tm t \<longrightarrow>
        strftime timestamp_format t = iso_timestamp t \<and> length (strftime timestamp_format t) = 24)"
proof -
  have "field ''timestamp'' (status_response w)
      = Some (JStr (strftime timestamp_format (gmtime w 0)))"
    by (simp add: status_response_def)
  moreover have "\<exists>a b. agents w = JList [a, b]
        \<and> Option.bind (field ''metrics'' a) (field ''lastExecution'')
            = Some (JStr (strftime timestamp_format (gmtime w 0)))
        \<and> Option.bind (field ''metrics'' b) (field ''lastExecution'')
            = Some (JStr (strftime timestamp_format (gmtime w 1)))"
    by (simp add: agents_def)
  moreover note strftime_millis [of t]
  moreover have "valid_tm t \<longrightarrow>
        strftime timestamp_format t = iso_timestamp t \<and> length (strftime timestamp_format t) = 24"
    by (simp add: strftime_iso length_iso_timestamp)
  ultimately show ?thesis
    by (intro conjI)
qed

text \<open>The clock of \<open>demo_world\<close> shows 07:05:58 and, one call later, 07:05:59.\<close>

theorem timestamps_witness:
  "valid_tm (gmtime demo_world 1)
   \<and> strftime timestamp_format (gmtime demo_world 1) = ''2024-03-09T07:05:59.000Z''
   \<and> field ''timestamp'' (status_response demo_world) = Some (JStr ''2024-03-09T07:05:58.000Z'')"
proof -
  have v0: "valid_tm (gmtime demo_world 0)" and v1: "valid_tm (gmtime demo_world 1)"
    by (simp_all add: demo_world_def valid_tm_def)
  have i0: "iso_timestamp (gmtime demo_world 0) = ''2024-03-09T07:05:58.000Z''"
    by (simp add: demo_world_def iso_timestamp_def digits2_def digits4_def digit_char_def)
  have i1: "iso_timestamp (gmtime demo_world 1) = ''2024-03-09T07:05:59.000Z''"
    by (simp add: demo_world_def iso_timestamp_def digits2_def digits4_def digit_char_def)
  from timestamps [of demo_world "gmtime demo_world 0"] v0 i0
  have "field ''timestamp'' (status_response demo_world) = Some (JStr ''2024-03-09T07:05:58.000Z'')"
    by simp
  moreover from timestamps [of demo_world "gmtime demo_world 1"] v1 i1
  have "strftime timestamp_format (gmtime demo_world 1) = ''2024-03-09T07:05:59.000Z''"
    by simp
  ultimately show ?thesis
    using v1 by (intro conjI)
qed

section \<open>Errors of the file system\<close>

text \<open>
  Claim C8 says that an error other than ``not found'' still ends in a response. It does
  not: a file that may not be opened makes \<^verbatim>\<open>open\<close> raise \<^verbatim>\<open>PermissionError\<close>, the only
  \<^verbatim>\<open>except\<close> clause is for \<^verbatim>\<open>FileNotFoundError\<close>, and the exception leaves \<open>do_GET\<close> with
  nothing sent to the client.
\<close>

theorem permission_denied_escapes:
  "open_rb demo_world ''./secret.txt'' = Inl PermissionError
   \<and> do_GET demo_world ''/secret.txt'' =
       ([Print ''Request received: /secret.txt'', Open ''./secret.txt''], Some PermissionError)
   \<and> sent (do_GET demo_world ''/secret.txt'') = []"
  by (simp add: do_GET_def urlparse_secret try_file_def demo_world_def sent_def)

text \<open>
  Claim C8, as the code has it. An exception other than \<^verbatim>\<open>FileNotFoundError\<close> raised while
  a static file is opened or read leaves the handler: from \<^verbatim>\<open>open\<close> with nothing sent, from
  \<^verbatim>\<open>read\<close> after the status 200 and the headers and with no body; the same holds for the
  \<^verbatim>\<open>index.html\<close> of the fallback.
\<close>

theorem other_errors_escape:
  assumes "urlparse_path w raw = Inr path" and "\<not> prefix ''/api/'' path"
    and "path' = (if path = ''/'' then ''/index.html'' else path)"
    and "e \<noteq> FileNotFoundError"
  shows "(open_rb w (''.'' @ path') = Inl e \<longrightarrow>
        do_GET w raw =
          ([Print (''Request received: '' @ path), Open (''.'' @ path')], Some e))
    \<and> (open_rb w (''.'' @ path') = Inr (Inl e) \<longrightarrow>
        do_GET w raw =
          ([Print (''Request received: '' @ path), Open (''.'' @ path'), SendResponse 200,
            SendHeader ''Content-type'' (content_type path'), EndHeaders], Some e))
    \<and> (open_rb w (''.'' @ path') = Inl FileNotFoundError \<and> open_rb w ''./index.html'' = Inl e \<longrightarrow>
        do_GET w raw =
          ([Print (''Request received: '' @ path), Open (''.'' @ path'), Open ''./index.html''],
           Some e))
    \<and> (open_rb w (''.'' @ path') = Inl FileNotFoundError
          \<and> open_rb w ''./index.html'' = Inr (Inl e) \<longrightarrow>
        do_GET w raw =
          ([Print (''Request received: '' @ path), Open (''.'' @ path'), Open ''./index.html'',
            SendResponse 200, SendHeader ''Content-type'' ''text/html'', EndHeaders], Some e))"
  using assms(3,4)
  by (simp add: do_GET_static [OF assms(1,2)] try_file_def try_index_def Let_def)

text \<open>A file that cannot be read, after its headers are out.\<close>

theorem other_errors_escape_witness:
  "OSError \<noteq> FileNotFoundError
   \<and> open_rb demo_world ''./broken.css'' = Inr (Inl OSError)
   \<and> do_GET demo_world ''/broken.css'' =
       ([Print ''Request received: /broken.css'', Open ''./broken.css'', SendResponse 200,
         SendHeader ''Content-type'' ''text/css'', EndHeaders], Some OSError)"
proof -
  have no_api: "\<not> prefix ''/api/'' ''/broken.css''"
    by simp
  have same: "''/broken.css'' = (if ''/broken.css'' = ''/'' then ''/index.html'' else ''/broken.css'')"
    by simp
  have other: "OSError \<noteq> FileNotFoundError"
    by simp
  have unreadable: "open_rb demo_world (''.'' @ ''/broken.css'') = Inr (Inl OSError)"
    by (simp add: demo_world_def)
  have "do_GET demo_world ''/broken.css'' =
       ([Print ''Request received: /broken.css'', Open ''./broken.css'', SendResponse 200,
         SendHeader ''Content-type'' ''text/css'', EndHeaders], Some OSError)"
    using other_errors_escape [OF urlparse_broken no_api same other, THEN conjunct2,
        THEN conjunct1, THEN mp, OF unreadable]
    by (simp add: content_type_broken_css)
  moreover from unreadable have "open_rb demo_world ''./broken.css'' = Inr (Inl OSError)"
    by simp
  ultimately show ?thesis
    using other by (intro conjI)
qed

section \<open>Two runs\<close>

lemma try_file_world: "open_rb w' = open_rb w \<Longrightarrow> try_file w' p = try_file w p"
  by (simp add: try_file_def)

lemma try_index_world: "open_rb w' = open_rb w \<Longrightarrow> try_index w' = try_index w"
  by (simp add: try_index_def)

lemma handle_api_world:
  "path \<noteq> ''/api/solana/status'' \<Longrightarrow> path \<noteq> ''/api/agents'' \<Longrightarrow>
   handle_api w' path = handle_api w path"
  by (simp add: handle_api_def)

lemma redact_status:
  "environ w' = environ w \<Longrightarrow> redact (status_response w') = redact (status_response w)"
  by (simp add: status_response_def)

lemma redact_agents: "redact (agents w') = redact (agents w)"
  by (simp add: agents_def)

text \<open>Off the two routes that read the clock, the clock is not read.\<close>

lemma do_GET_clock_free:
  assumes fs: "open_rb w' = open_rb w"
    and pw: "urlparse_path w' raw = urlparse_path w raw"
    and ns: "urlparse_path w raw \<noteq> Inr ''/api/solana/status''"
    and na: "urlparse_path w raw \<noteq> Inr ''/api/agents''"
  shows "do_GET w' raw = do_GET w raw"
proof (cases "urlparse_path w raw")
  case (Inl e)
  with pw show ?thesis by (simp add: do_GET_def)
next
  case (Inr path)
  with ns na have "path \<noteq> ''/api/solana/status''" "path \<noteq> ''/api/agents''" by simp_all
  then have api: "handle_api w' path = handle_api w path" by (rule handle_api_world)
  show ?thesis
    unfolding do_GET_def pw Inr sum.case api try_file_world [OF fs] try_index_world [OF fs]
    by (rule refl)
qed

lemma handle_api_same:
  "environ w' = environ w \<Longrightarrow> gmtime w' = gmtime w \<Longrightarrow> handle_api w' path = handle_api w path"
  by (simp add: handle_api_def status_response_def agents_def)

lemma do_GET_same:
  assumes fs: "open_rb w' = open_rb w"
    and pw: "urlparse_path w' raw = urlparse_path w raw"
    and env: "environ w' = environ w" and clock: "gmtime w' = gmtime w"
  shows "do_GET w' raw = do_GET w raw"
  unfolding do_GET_def pw handle_api_same [OF env clock] try_file_world [OF fs]
    try_index_world [OF fs]
  by (rule refl)

lemma do_GET_root_demo:
  "do_GET demo_world ''/'' =
     ([Print ''Request received: /'', Open ''./index.html'', SendResponse 200,
       SendHeader ''Content-type'' ''text/html'', EndHeaders, Write ''<html>hi</html>''], None)"
proof -
  have ct: "content_type ''/index.html'' = ''text/html''"
    unfolding content_type_def suffix_to_prefix by simp
  show ?thesis
    by (simp add: do_GET_def urlparse_root try_file_def demo_world_def Let_def ct)
qed

lemma do_GET_root_later: "do_GET later_world ''/'' = do_GET demo_world ''/''"
  by (rule do_GET_clock_free) (simp_all add: later_world_def urlparse_root urlparse_path_world)

lemma status_line_ok: "status_line 200 = ''HTTP/1.0 200 OK'' @ crlf"
  by (simp add: status_line_def reason_phrase_def dec.simps digit_char_def)

text \<open>
  Claim C9 says that two runs with the same files and the same environment write the same
  bytes, the timestamp fields of the two API routes apart. They do not: \<^verbatim>\<open>send_response\<close>
  puts a \<^verbatim>\<open>Date\<close> header, read from the clock, into every response. \<open>later_world\<close> has the
  files and the environment of \<open>demo_world\<close>; the responses to \<^verbatim>\<open>GET /\<close>, a static file,
  differ in that line.
\<close>

theorem date_header_differs:
  "open_rb later_world = open_rb demo_world
   \<and> environ later_world = environ demo_world
   \<and> wire demo_world (fst (do_GET demo_world ''/'')) =
       ''HTTP/1.0 200 OK'' @ crlf
       @ ''Server: SimpleHTTP/0.6 Python/3.12.3'' @ crlf
       @ ''Date: Sat, 09 Mar 2024 07:05:58 GMT'' @ crlf
       @ ''Content-type: text/html'' @ crlf
       @ crlf
       @ ''<html>hi</html>''
   \<and> wire later_world (fst (do_GET later_world ''/'')) =
       ''HTTP/1.0 200 OK'' @ crlf
       @ ''Server: SimpleHTTP/0.6 Python/3.12.3'' @ crlf
       @ ''Date: Wed, 31 Dec 2025 23:59:00 GMT'' @ crlf
       @ ''Content-type: text/html'' @ crlf
       @ crlf
       @ ''<html>hi</html>''
   \<and> wire later_world (fst (do_GET later_world ''/'')) \<noteq> wire demo_world (fst (do_GET demo_world ''/''))"
proof -
  have files: "open_rb later_world = open_rb demo_world"
    and env: "environ later_world = environ demo_world"
    by (simp_all add: later_world_def)
  have first: "wire demo_world (fst (do_GET demo_world ''/'')) =
       ''HTTP/1.0 200 OK'' @ crlf
       @ ''Server: SimpleHTTP/0.6 Python/3.12.3'' @ crlf
       @ ''Date: Sat, 09 Mar 2024 07:05:58 GMT'' @ crlf
       @ ''Content-type: text/html'' @ crlf
       @ crlf
       @ ''<html>hi</html>''"
    unfolding do_GET_root_demo
    by (simp add: wire_def status_line_ok header_line_def demo_world_def)
  have second: "wire later_world (fst (do_GET later_world ''/'')) =
       ''HTTP/1.0 200 OK'' @ crlf
       @ ''Server: SimpleHTTP/0.6 Python/3.12.3'' @ crlf
       @ ''Date: Wed, 31 Dec 2025 23:59:00 GMT'' @ crlf
       @ ''Content-type: text/html'' @ crlf
       @ crlf
       @ ''<html>hi</html>''"
    unfolding do_GET_root_later do_GET_root_demo
    by (simp add: wire_def status_line_ok header_line_def later_world_def demo_world_def)
  have differ: "wire later_world (fst (do_GET later_world ''/''))
      \<noteq> wire demo_world (fst (do_GET demo_world ''/''))"
    unfolding first second by (simp add: crlf_def)
  show ?thesis
    by (intro conjI) (rule files, rule env, rule first, rule second, rule differ)
qed

text \<open>
  Claim C9, as the code has it. Two runs of the handler on the same request, in worlds
  with the same files, the same environment and the same server software, differ at most
  by the clock, and only in the \<^verbatim>\<open>Date\<close> header and the timestamp fields. Off
  \<^verbatim>\<open>/api/solana/status\<close> and \<^verbatim>\<open>/api/agents\<close> the handler makes the same calls, and with one
  date \<open>d\<close> put in the \<^verbatim>\<open>Date\<close> header of both runs the bytes written are the same. On these
  two routes all calls before the body are equal, and the two bodies are \<open>dumps\<close> of
  documents that are equal once their \<^verbatim>\<open>timestamp\<close> and \<^verbatim>\<open>lastExecution\<close> fields are
  blanked. With the same clock as well, calls and bytes are equal on every route; and the
  timestamp fields are the same in any two worlds \<open>v\<close> and \<open>w\<close> with the same clock,
  whatever their files and environment.
\<close>

theorem two_runs:
  assumes fs: "open_rb w' = open_rb w" and env: "environ w' = environ w"
    and br: "bracketed_netloc_ok w' = bracketed_netloc_ok w"
    and nf: "nfkc_netloc_ok w' = nfkc_netloc_ok w"
    and vs: "version_string w' = version_string w"
  shows "(urlparse_path w raw \<noteq> Inr ''/api/solana/status''
          \<and> urlparse_path w raw \<noteq> Inr ''/api/agents'' \<longrightarrow>
         do_GET w' raw = do_GET w raw
         \<and> wire (w'\<lparr>date_time_string := d\<rparr>) (fst (do_GET w' raw))
             = wire (w\<lparr>date_time_string := d\<rparr>) (fst (do_GET w raw)))
    \<and> (urlparse_path w raw = Inr ''/api/solana/status'' \<longrightarrow>
         (\<exists>evs. do_GET w raw = (evs @ [Write (encode (dumps (status_response w)))], None)
               \<and> do_GET w' raw = (evs @ [Write (encode (dumps (status_response w')))], None))
         \<and> redact (status_response w') = redact (status_response w))
    \<and> (urlparse_path w raw = Inr ''/api/agents'' \<longrightarrow>
         (\<exists>evs. do_GET w raw = (evs @ [Write (encode (dumps (agents w)))], None)
               \<and> do_GET w' raw = (evs @ [Write (encode (dumps (agents w')))], None))
         \<and> redact (agents w') = redact (agents w))
    \<and> (gmtime w' = gmtime w \<longrightarrow> do_GET w' raw = do_GET w raw)
    \<and> (gmtime w' = gmtime w \<and> date_time_string w' = date_time_string w \<longrightarrow>
         wire w' (fst (do_GET w' raw)) = wire w (fst (do_GET w raw)))
    \<and> (gmtime v = gmtime w \<longrightarrow>
         field ''timestamp'' (status_response v) = field ''timestamp'' (status_response w)
         \<and> agents v = agents w)"
proof -
  have pw: "urlparse_path w' raw = urlparse_path w raw"
    using br nf by (rule urlparse_path_world)
  have dated: "wire (w'\<lparr>date_time_string := d\<rparr>) events = wire (w\<lparr>date_time_string := d\<rparr>) events"
    for events
    by (rule wire_world) (simp_all add: vs)
  have other: "urlparse_path w raw \<noteq> Inr ''/api/solana/status''
          \<and> urlparse_path w raw \<noteq> Inr ''/api/agents'' \<longrightarrow>
         do_GET w' raw = do_GET w raw
         \<and> wire (w'\<lparr>date_time_string := d\<rparr>) (fst (do_GET w' raw))
             = wire (w\<lparr>date_time_string := d\<rparr>) (fst (do_GET w raw))"
  proof
    assume "urlparse_path w raw \<noteq> Inr ''/api/solana/status''
          \<and> urlparse_path w raw \<noteq> Inr ''/api/agents''"
    then have calls: "do_GET w' raw = do_GET w raw"
      using do_GET_clock_free [OF fs pw] by simp
    show "do_GET w' raw = do_GET w raw
         \<and> wire (w'\<lparr>date_time_string := d\<rparr>) (fst (do_GET w' raw))
             = wire (w\<lparr>date_time_string := d\<rparr>) (fst (do_GET w raw))"
      unfolding calls by (intro conjI) (rule refl, rule dated)
  qed
  have status: "urlparse_path w raw = Inr ''/api/solana/status'' \<longrightarrow>
         (\<exists>evs. do_GET w raw = (evs @ [Write (encode (dumps (status_response w)))], None)
               \<and> do_GET w' raw = (evs @ [Write (encode (dumps (status_response w')))], None))
         \<and> redact (status_response w') = redact (status_response w)"
  proof
    assume p: "urlparse_path w raw = Inr ''/api/solana/status''"
    with pw have p': "urlparse_path w' raw = Inr ''/api/solana/status''" by simp
    show "(\<exists>evs. do_GET w raw = (evs @ [Write (encode (dumps (status_response w)))], None)
               \<and> do_GET w' raw = (evs @ [Write (encode (dumps (status_response w')))], None))
         \<and> redact (status_response w') = redact (status_response w)"
      using do_GET_status [OF p] do_GET_status [OF p'] redact_status [OF env] by blast
  qed
  have agents: "urlparse_path w raw = Inr ''/api/agents'' \<longrightarrow>
         (\<exists>evs. do_GET w raw = (evs @ [Write (encode (dumps (agents w)))], None)
               \<and> do_GET w' raw = (evs @ [Write (encode (dumps (agents w')))], None))
         \<and> redact (agents w') = redact (agents w)"
  proof
    assume p: "urlparse_path w raw = Inr ''/api/agents''"
    with pw have p': "urlparse_path w' raw = Inr ''/api/agents''" by simp
    show "(\<exists>evs. do_GET w raw = (evs @ [Write (encode (dumps (agents w)))], None)
               \<and> do_GET w' raw = (evs @ [Write (encode (dumps (agents w')))], None))
         \<and> redact (agents w') = redact (agents w)"
      using do_GET_agents [OF p] do_GET_agents [OF p'] redact_agents [of w' w] by blast
  qed
  have same: "gmtime w' = gmtime w \<longrightarrow> do_GET w' raw = do_GET w raw"
    using do_GET_same [OF fs pw env] by (intro impI)
  have bytes: "gmtime w' = gmtime w \<and> date_time_string w' = date_time_string w \<longrightarrow>
         wire w' (fst (do_GET w' raw)) = wire w (fst (do_GET w raw))"
  proof
    assume c: "gmtime w' = gmtime w \<and> date_time_string w' = date_time_string w"
    then have calls: "do_GET w' raw = do_GET w raw"
      using do_GET_same [OF fs pw env] by simp
    show "wire w' (fst (do_GET w' raw)) = wire w (fst (do_GET w raw))"
      unfolding calls using vs c by (intro wire_world) simp_all
  qed
  have clock: "gmtime v = gmtime w \<longrightarrow>
         field ''timestamp'' (status_response v) = field ''timestamp'' (status_response w)
         \<and> agents v = agents w"
    by (simp add: status_response_def agents_def)
  from other status agents same bytes clock show ?thesis
    by (intro conjI)
qed

text \<open>\<open>later_world\<close> is \<open>demo_world\<close> nearly two years on.\<close>

theorem two_runs_witness:
  "do_GET later_world ''/app.js?v=1'' = do_GET demo_world ''/app.js?v=1''
   \<and> wire (later_world\<lparr>date_time_string := date_time_string demo_world\<rparr>)
         (fst (do_GET later_world ''/app.js?v=1''))
       = wire demo_world (fst (do_GET demo_world ''/app.js?v=1''))
   \<and> redact (status_response later_world) = redact (status_response demo_world)
   \<and> status_response later_world \<noteq> status_response demo_world"
proof -
  have fs: "open_rb later_world = open_rb demo_world"
    and env: "environ later_world = environ demo_world"
    and br: "bracketed_netloc_ok later_world = bracketed_netloc_ok demo_world"
    and nf: "nfkc_netloc_ok later_world = nfkc_netloc_ok demo_world"
    and vs: "version_string later_world = version_string demo_world"
    by (simp_all add: later_world_def)
  have static: "urlparse_path demo_world ''/app.js?v=1'' \<noteq> Inr ''/api/solana/status''
      \<and> urlparse_path demo_world ''/app.js?v=1'' \<noteq> Inr ''/api/agents''"
    by (simp add: urlparse_app_js)
  note t = two_runs [OF fs env br nf vs, where raw = "''/app.js?v=1''"
      and d = "date_time_string demo_world", THEN conjunct1, THEN mp, OF static]
  have calls: "do_GET later_world ''/app.js?v=1'' = do_GET demo_world ''/app.js?v=1''"
    by (rule t [THEN conjunct1])
  have bytes: "wire (later_world\<lparr>date_time_string := date_time_string demo_world\<rparr>)
         (fst (do_GET later_world ''/app.js?v=1''))
       = wire demo_world (fst (do_GET demo_world ''/app.js?v=1''))"
    using t [THEN conjunct2] by simp
  have blanked: "redact (status_response later_world) = redact (status_response demo_world)"
    by (rule two_runs [OF fs env br nf vs, where raw = "''/api/solana/status''",
          THEN conjunct2, THEN conjunct1, THEN mp, OF urlparse_api_status, THEN conjunct2])
  have differ: "status_response later_world \<noteq> status_response demo_world"
    by (simp add: status_response_def later_world_def demo_world_def timestamp_format_def
        directive_def dec.simps digit_char_def zfill_def)
  show ?thesis
    by (intro conjI) (rule calls, rule bytes, rule blanked, rule differ)
qed

section \<open>The name of the file that is opened\<close>

text \<open>
  Claim C10. For a path outside \<^verbatim>\<open>/api/\<close> the first file the handler opens is named
  \<^verbatim>\<open>.\<close> followed by the path (\<^verbatim>\<open>/index.html\<close> for \<^verbatim>\<open>/\<close>), character for character, and the
  only other file it may open is \<^verbatim>\<open>./index.html\<close>. Nothing is normalised or refused: the
  request \<^verbatim>\<open>/../etc/passwd\<close> opens \<^verbatim>\<open>./../etc/passwd\<close>, a name that leaves the served root.
\<close>

theorem literal_path_resolution:
  "(urlparse_path w raw = Inr path \<and> \<not> prefix ''/api/'' path \<longrightarrow>
      (\<exists>rest. opened (fst (do_GET w raw))
                 = (''.'' @ (if path = ''/'' then ''/index.html'' else path)) # rest
              \<and> (rest = [] \<or> rest = [''./index.html''])))
   \<and> (\<exists>rest. opened (fst (do_GET w ''/../etc/passwd'')) = ''./../etc/passwd'' # rest)
   \<and> escapes_root ''./../etc/passwd''"
proof -
  have gen: "\<exists>rest. opened (fst (do_GET w raw))
                 = (''.'' @ (if path = ''/'' then ''/index.html'' else path)) # rest
              \<and> (rest = [] \<or> rest = [''./index.html''])"
    if p: "urlparse_path w raw = Inr path" and n: "\<not> prefix ''/api/'' path" for raw path
  proof -
    define path' where "path' = (if path = ''/'' then ''/index.html'' else path)"
    obtain ev1 r1 where t1: "try_file w path' = (ev1, r1)" by (cases "try_file w path'")
    obtain ev2 r2 where t2: "try_index w = (ev2, r2)" by (cases "try_index w")
    have o1: "opened ev1 = [''.'' @ path']" using opened_try_file [of w path'] t1 by simp
    have o2: "opened ev2 = [''./index.html'']" using opened_try_index [of w] t2 by simp
    show ?thesis
      unfolding do_GET_static [OF p n] path'_def [symmetric] Let_def t1 t2 prod.case
      by (simp add: opened_append o1 o2 opened_not_found)
  qed
  have no_api: "\<not> prefix ''/api/'' ''/../etc/passwd''" by simp
  have traversal: "\<exists>rest. opened (fst (do_GET w ''/../etc/passwd'')) = ''./../etc/passwd'' # rest"
    using gen [OF urlparse_traversal no_api] by auto
  have outside: "escapes_root ''./../etc/passwd''"
    by (simp add: escapes_root_def)
  show ?thesis
  proof (intro conjI impI)
    assume "urlparse_path w raw = Inr path \<and> \<not> prefix ''/api/'' path"
    then show "\<exists>rest. opened (fst (do_GET w raw))
                 = (''.'' @ (if path = ''/'' then ''/index.html'' else path)) # rest
              \<and> (rest = [] \<or> rest = [''./index.html''])"
      using gen by simp
  qed (rule traversal, rule outside)
qed

theorem literal_path_resolution_witness:
  "opened (fst (do_GET demo_world ''/../etc/passwd'')) = [''./../etc/passwd'', ''./index.html'']
   \<and> escapes_root ''./../etc/passwd''"
proof -
  have "opened (fst (do_GET demo_world ''/../etc/passwd''))
      = [''./../etc/passwd'', ''./index.html'']"
    by (simp add: urlparse_traversal do_GET_def try_file_def try_index_def demo_world_def Let_def)
  with literal_path_resolution [of demo_world "''/../etc/passwd''" "''/../etc/passwd''"]
  show ?thesis by (intro conjI) (assumption, elim conjE, assumption)
qed

end
